theory Spec2Isabelle
  imports Main "HOL-Library.Word"
begin

unbundle bit_operations_syntax

section \<open>Python values\<close>

text \<open>
  The values the client handles are the ones \<^verbatim>\<open>json.loads\<close> produces and the ones it
  puts into request parameters: \<^verbatim>\<open>None\<close>, booleans, integers, floats, strings, lists and
  dictionaries with string keys. A float is kept as its IEEE-754 binary64 bit pattern; a
  dictionary is an association list in insertion order, read with \<^const>\<open>map_of\<close>.
\<close>

datatype pyval =
    PNone
  | PBool bool
  | PInt int
  | PFloat "64 word"
  | PStr string
  | PList "pyval list"
  | PDict "(string \<times> pyval) list"

text \<open>The exceptions that can leave a function of \<^verbatim>\<open>corekinect.py\<close>.\<close>

datatype error =
    KeyError string
  | IndexError
  | TypeError
  | AttributeError
  | JSONDecodeError
  | RequestException

text \<open>Truth value of an object, as \<^verbatim>\<open>not x\<close> and \<^verbatim>\<open>if x\<close> test it.\<close>

fun truthy :: "pyval \<Rightarrow> bool" where
  "truthy PNone = False"
| "truthy (PBool b) = b"
| "truthy (PInt i) = (i \<noteq> 0)"
| "truthy (PFloat w) = (w AND 0x7FFFFFFFFFFFFFFF \<noteq> 0)"
| "truthy (PStr s) = (s \<noteq> [])"
| "truthy (PList xs) = (xs \<noteq> [])"
| "truthy (PDict d) = (d \<noteq> [])"

fun starts_with :: "string \<Rightarrow> string \<Rightarrow> bool" where
  "starts_with [] s = True"
| "starts_with (c # cs) [] = False"
| "starts_with (c # cs) (x # xs) = (c = x \<and> starts_with cs xs)"

fun substring_of :: "string \<Rightarrow> string \<Rightarrow> bool" where
  "substring_of k [] = (k = [])"
| "substring_of k (x # xs) = (starts_with k (x # xs) \<or> substring_of k xs)"

text \<open>
  \<^verbatim>\<open>k in v\<close> for a string \<open>k\<close>: key membership on a dictionary, element equality on a
  list, substring test on a string, and a \<^verbatim>\<open>TypeError\<close> on a value that is not iterable.
\<close>

fun py_contains :: "string \<Rightarrow> pyval \<Rightarrow> error + bool" where
  "py_contains k (PDict d) = Inr (k \<in> set (map fst d))"
| "py_contains k (PList xs) = Inr (PStr k \<in> set xs)"
| "py_contains k (PStr s) = Inr (substring_of k s)"
| "py_contains k PNone = Inl TypeError"
| "py_contains k (PBool b) = Inl TypeError"
| "py_contains k (PInt i) = Inl TypeError"
| "py_contains k (PFloat w) = Inl TypeError"

text \<open>
  \<^verbatim>\<open>v[k]\<close> for a string \<open>k\<close>: a dictionary looks the key up and raises \<^verbatim>\<open>KeyError\<close> when
  it is absent; lists and strings take integer indices only, and the other values are
  not subscriptable (\<^verbatim>\<open>TypeError\<close> both times).
\<close>

fun py_getitem :: "pyval \<Rightarrow> string \<Rightarrow> error + pyval" where
  "py_getitem (PDict d) k = (case map_of d k of None \<Rightarrow> Inl (KeyError k) | Some v \<Rightarrow> Inr v)"
| "py_getitem (PList xs) k = Inl TypeError"
| "py_getitem (PStr s) k = Inl TypeError"
| "py_getitem PNone k = Inl TypeError"
| "py_getitem (PBool b) k = Inl TypeError"
| "py_getitem (PInt i) k = Inl TypeError"
| "py_getitem (PFloat w) k = Inl TypeError"

text \<open>\<^verbatim>\<open>for x in v\<close>: the elements of a list, the keys of a dictionary, the characters of a string.\<close>

fun py_iter :: "pyval \<Rightarrow> error + pyval list" where
  "py_iter (PList xs) = Inr xs"
| "py_iter (PDict d) = Inr (map (\<lambda>kv. PStr (fst kv)) d)"
| "py_iter (PStr s) = Inr (map (\<lambda>c. PStr [c]) s)"
| "py_iter PNone = Inl TypeError"
| "py_iter (PBool b) = Inl TypeError"
| "py_iter (PInt i) = Inl TypeError"
| "py_iter (PFloat w) = Inl TypeError"

text \<open>\<^verbatim>\<open>xs[i]\<close> for a list and an index produced by \<^verbatim>\<open>range\<close> (never negative).\<close>

definition list_getitem :: "'a list \<Rightarrow> nat \<Rightarrow> error + 'a" where
  "list_getitem xs i = (if i < length xs then Inr (xs ! i) else Inl IndexError)"

text \<open>
  A list comprehension \<^verbatim>\<open>[f(x) for x in xs]\<close> whose element expression may raise: the
  elements are computed from left to right and the first exception ends the comprehension.
\<close>

fun comprehension :: "('a \<Rightarrow> error + 'b) \<Rightarrow> 'a list \<Rightarrow> error + 'b list" where
  "comprehension f [] = Inr []"
| "comprehension f (x # xs) =
     (case f x of
        Inl e \<Rightarrow> Inl e
      | Inr y \<Rightarrow> (case comprehension f xs of Inl e \<Rightarrow> Inl e | Inr ys \<Rightarrow> Inr (y # ys)))"

text \<open>What is handed to \<^verbatim>\<open>str.format\<close>: an object, or the view \<^verbatim>\<open>d.values()\<close> of a dictionary.\<close>

datatype fmt_arg = Obj pyval | DictValues "pyval list"

fun py_values :: "pyval \<Rightarrow> error + fmt_arg" where
  "py_values (PDict d) = Inr (DictValues (map snd d))"
| "py_values v = Inl AttributeError"

section \<open>Requests, responses and the world\<close>

datatype http_method = GET | POST | DELETE

text \<open>The arguments of one call of \<^verbatim>\<open>requests.get\<close>, \<^verbatim>\<open>requests.post\<close> or \<^verbatim>\<open>requests.delete\<close>.\<close>

record request =
  meth :: http_method
  url :: string
  params :: "(string \<times> pyval) list"
  headers :: "(string \<times> string) list"
  auth :: "(string \<times> string) option"

text \<open>
  No call of the client passes \<^verbatim>\<open>data\<close> or \<^verbatim>\<open>json\<close>, so no request has a body: what
  travels besides the headers is the query string that \<^verbatim>\<open>requests\<close> computes from
  \<^verbatim>\<open>params\<close>. \<^verbatim>\<open>_encode_params\<close> lists one pair per element of each value (a string or a
  value that cannot be iterated counts as one element, iterating a dictionary gives its
  keys, \<^verbatim>\<open>None\<close> is dropped), and \<^verbatim>\<open>urlencode\<close> with \<^verbatim>\<open>doseq=True\<close> then writes one
  \<^verbatim>\<open>name=value\<close> per element of each listed value that has a length. The model stops
  before percent-quoting and joining: a query is the list of its name/value pairs, a value
  being a string as given or \<^verbatim>\<open>str(v)\<close> of an object \<open>v\<close> that is no string.
\<close>

datatype qvalue = Text string | StrOf pyval

fun param_values :: "pyval \<Rightarrow> pyval list" where
  "param_values (PStr s) = [PStr s]"
| "param_values (PList xs) = xs"
| "param_values (PDict d) = map (\<lambda>kv. PStr (fst kv)) d"
| "param_values PNone = [PNone]"
| "param_values (PBool b) = [PBool b]"
| "param_values (PInt i) = [PInt i]"
| "param_values (PFloat w) = [PFloat w]"

definition encode_params :: "(string \<times> pyval) list \<Rightarrow> (string \<times> pyval) list" where
  "encode_params data =
     concat (map (\<lambda>(k, vs). map (Pair k) (filter (\<lambda>v. v \<noteq> PNone) (param_values vs))) data)"

fun quote_elt :: "pyval \<Rightarrow> qvalue" where
  "quote_elt (PStr s) = Text s"
| "quote_elt v = StrOf v"

fun urlencode_values :: "pyval \<Rightarrow> qvalue list" where
  "urlencode_values (PStr s) = [Text s]"
| "urlencode_values (PList xs) = map quote_elt xs"
| "urlencode_values (PDict d) = map (\<lambda>kv. Text (fst kv)) d"
| "urlencode_values PNone = [StrOf PNone]"
| "urlencode_values (PBool b) = [StrOf (PBool b)]"
| "urlencode_values (PInt i) = [StrOf (PInt i)]"
| "urlencode_values (PFloat w) = [StrOf (PFloat w)]"

definition urlencode :: "(string \<times> pyval) list \<Rightarrow> (string \<times> qvalue) list" where
  "urlencode query = concat (map (\<lambda>(k, v). map (Pair k) (urlencode_values v)) query)"

definition query_of :: "request \<Rightarrow> (string \<times> qvalue) list" where
  "query_of req = urlencode (encode_params (params req))"

text \<open>
  A \<^verbatim>\<open>requests.Response\<close>: the status code, the bytes of the body, and the value
  \<^verbatim>\<open>json.loads\<close> computes from a body that is a JSON text (\<open>None\<close> when it is not one).
\<close>

record response =
  status_code :: int
  content :: string
  body_json :: "pyval option"

text \<open>\<^verbatim>\<open>Response.__bool__\<close> is \<^verbatim>\<open>Response.ok\<close>: false for the status codes 400 to 599.\<close>

definition ok :: "response \<Rightarrow> bool" where
  "ok r = (\<not> (400 \<le> status_code r \<and> status_code r < 600))"

text \<open>\<^verbatim>\<open>Response.json()\<close>: an empty body is never a JSON text.\<close>

definition json :: "response \<Rightarrow> error + pyval" where
  "json r =
     (if content r = [] then Inl JSONDecodeError
      else case body_json r of None \<Rightarrow> Inl JSONDecodeError | Some v \<Rightarrow> Inr v)"

text \<open>
  \<^verbatim>\<open>requests.utils.iter_slices\<close>, which \<^verbatim>\<open>Response.__iter__\<close> runs over the body
  with slices of 128 bytes once the body has been read.
\<close>

function iter_slices :: "string \<Rightarrow> nat \<Rightarrow> string list" where
  "iter_slices s slice_length =
     (let n = (if slice_length = 0 then length s else slice_length)
      in if s = [] then [] else take n s # iter_slices (drop n s) slice_length)"
  by pat_completeness auto
termination
  by (relation "measure (\<lambda>(s, n). length s)") (auto simp: Let_def)

definition response_iter :: "response \<Rightarrow> string list" where
  "response_iter r = iter_slices (content r) 128"

text \<open>
  \<^verbatim>\<open>k in r\<close> on a response has no \<^verbatim>\<open>__contains__\<close> to call, so it compares the string
  with each slice of bytes; a \<^verbatim>\<open>str\<close> never equals a \<^verbatim>\<open>bytes\<close> object.
\<close>

definition str_eq_bytes :: "string \<Rightarrow> string \<Rightarrow> bool" where
  "str_eq_bytes k chunk = False"

definition response_contains :: "string \<Rightarrow> response \<Rightarrow> bool" where
  "response_contains k r = list_ex (str_eq_bytes k) (response_iter r)"

text \<open>\<^verbatim>\<open>r[k]\<close> on a response, and \<^verbatim>\<open>chunk[k]\<close> on bytes with a string \<open>k\<close>: \<^verbatim>\<open>TypeError\<close>.\<close>

definition response_getitem :: "response \<Rightarrow> string \<Rightarrow> error + pyval" where
  "response_getitem r k = Inl TypeError"

definition bytes_getitem :: "string \<Rightarrow> string \<Rightarrow> error + pyval" where
  "bytes_getitem chunk k = Inl TypeError"

datatype level = ERROR | INFO

text \<open>A log record: the level, the message template and the arguments of \<^verbatim>\<open>format\<close>.\<close>

datatype log_record = Log level string "fmt_arg list"

text \<open>What a call leaves behind: the requests issued, the log, and the lines printed.\<close>

record world =
  issued :: "request list"
  logged :: "log_record list"
  printed :: "string list"

type_synonym transport = "request \<Rightarrow> error + response"

type_synonym 'a prog = "world \<Rightarrow> (error + 'a) \<times> world"

definition ret :: "'a \<Rightarrow> 'a prog" where
  "ret x = (\<lambda>w. (Inr x, w))"

definition expr :: "error + 'a \<Rightarrow> 'a prog" where
  "expr v = (\<lambda>w. (v, w))"

definition py_bind :: "'a prog \<Rightarrow> ('a \<Rightarrow> 'b prog) \<Rightarrow> 'b prog" where
  "py_bind m f = (\<lambda>w. case m w of (Inl e, w') \<Rightarrow> (Inl e, w') | (Inr x, w') \<Rightarrow> f x w')"

definition py_seq :: "unit prog \<Rightarrow> 'b prog \<Rightarrow> 'b prog" where
  "py_seq m k = py_bind m (\<lambda>_. k)"

definition py_when :: "bool \<Rightarrow> unit prog \<Rightarrow> unit prog" where
  "py_when b m = (if b then m else ret ())"

definition logging_error :: "string \<Rightarrow> unit prog" where
  "logging_error msg = (\<lambda>w. (Inr (), w\<lparr>logged := logged w @ [Log ERROR msg []]\<rparr>))"

definition logging_info :: "string \<Rightarrow> fmt_arg list \<Rightarrow> unit prog" where
  "logging_info msg args = (\<lambda>w. (Inr (), w\<lparr>logged := logged w @ [Log INFO msg args]\<rparr>))"

definition py_print :: "string \<Rightarrow> unit prog" where
  "py_print line = (\<lambda>w. (Inr (), w\<lparr>printed := printed w @ [line]\<rparr>))"

definition requests_call :: "transport \<Rightarrow> request \<Rightarrow> response prog" where
  "requests_call send req = (\<lambda>w. (send req, w\<lparr>issued := issued w @ [req]\<rparr>))"

fun for_each :: "('a \<Rightarrow> unit prog) \<Rightarrow> 'a list \<Rightarrow> unit prog" where
  "for_each body [] = ret ()"
| "for_each body (x # xs) = py_seq (body x) (for_each body xs)"

definition run :: "'a prog \<Rightarrow> (error + 'a) \<times> world" where
  "run m = m \<lparr>issued = [], logged = [], printed = []\<rparr>"

text \<open>A transport that answers every request with the same response.\<close>

definition respond_with :: "response \<Rightarrow> transport" where
  "respond_with r = (\<lambda>req. Inr r)"

section \<open>The client\<close>

definition base :: string where
  "base = ''https://api.corekinect.cloud:3000''"

definition bearer :: "string \<Rightarrow> string" where
  "bearer token = ''Bearer '' @ token"

definition print_version :: "transport \<Rightarrow> pyval prog" where
  "print_version send =
     py_bind (requests_call send
        \<lparr>meth = GET, url = base @ ''/account/GetVersion'', params = [], headers = [], auth = None\<rparr>)
     (\<lambda>version.
     py_seq (py_when (\<not> ok version) (logging_error ''No json data received in print_version()''))
    (py_seq (logging_info ''Requesting version...'' [])
    (py_seq (logging_info ''Status code: {}'' [Obj (PInt (status_code version))])
    (py_seq (py_bind (expr (json version)) (\<lambda>j. py_bind (expr (py_getitem j ''Version''))
               (\<lambda>v. logging_info ''Version: {}'' [Obj v])))
    (ret PNone)))))"

definition get_token :: "string \<Rightarrow> string \<Rightarrow> transport \<Rightarrow> pyval prog" where
  "get_token client_id client_secret send =
     py_seq (logging_info ''Requesting token...'' [])
    (let auth_params =
        [(''grant_type'', PStr ''client_credentials''),
         (''client_id'', PStr client_id),
         (''client_secret'', PStr client_secret),
         (''content-type'', PStr ''application/x-www-form-urlencoded'')]
     in py_bind (requests_call send
          \<lparr>meth = GET, url = base @ ''/auth/RequestToken'', params = auth_params,
           headers = [], auth = Some (''user'', ''pass'')\<rparr>)
     (\<lambda>authorize.
     py_seq (py_bind (expr (json authorize)) (\<lambda>j.
               py_when (\<not> truthy j) (logging_error ''No json data received in get_token()'')))
    (py_seq (py_bind (expr (json authorize)) (\<lambda>j. py_bind (expr (py_contains ''access_token'' j))
               (\<lambda>present. py_when (\<not> present) (logging_error ''No token received''))))
    (py_seq (logging_info ''Status code: {}'' [Obj (PInt (status_code authorize))])
    (py_seq (py_bind (expr (json authorize)) (\<lambda>j. py_bind (expr (py_getitem j ''access_token''))
               (\<lambda>t. logging_info ''Token: {}'' [Obj t])))
    (py_bind (expr (json authorize)) (\<lambda>j. expr (py_getitem j ''access_token''))))))))"

text \<open>The element \<^verbatim>\<open>{"DeviceId": new_ids[i], "ActivationCode": new_acs[i]}\<close> of the comprehension in \<^verbatim>\<open>add_devices\<close>.\<close>

definition dev_code_pair :: "string list \<Rightarrow> string list \<Rightarrow> nat \<Rightarrow> error + pyval" where
  "dev_code_pair new_ids new_acs i =
     (case list_getitem new_ids i of
        Inl e \<Rightarrow> Inl e
      | Inr d \<Rightarrow> (case list_getitem new_acs i of
          Inl e \<Rightarrow> Inl e
        | Inr a \<Rightarrow> Inr (PDict [(''DeviceId'', PStr d), (''ActivationCode'', PStr a)])))"

definition add_devices :: "string list \<Rightarrow> string list \<Rightarrow> string \<Rightarrow> transport \<Rightarrow> pyval prog" where
  "add_devices new_ids new_acs token send =
     py_seq (logging_info ''Adding devices...'' [])
    (py_bind (expr (comprehension (dev_code_pair new_ids new_acs) [0 ..< length new_ids]))
     (\<lambda>devices.
     let dev_code_pairs = [(''Authorization'', PStr (bearer token)), (''devices'', PList devices)]
     in py_bind (requests_call send
          \<lparr>meth = POST, url = base @ ''/account/AddDevices'', params = dev_code_pairs,
           headers = [], auth = None\<rparr>)
     (\<lambda>attempt_add.
     py_seq (py_bind (expr (json attempt_add)) (\<lambda>j.
               py_when (\<not> truthy j) (logging_error ''No json data received in add_devices()'')))
    (py_seq (py_bind (expr (json attempt_add)) (\<lambda>j. py_bind (expr (py_contains ''DevicesPassed'' j))
               (\<lambda>present. py_when (\<not> present) (logging_error ''Failed to add any devices''))))
    (py_bind (py_bind (expr (json attempt_add)) (\<lambda>j. py_bind (expr (py_getitem j ''DevicesPassed''))
               (\<lambda>dp. py_bind (expr (py_iter dp))
               (\<lambda>id_dicts. expr (comprehension (\<lambda>id_dict. py_getitem id_dict ''DeviceId'') id_dicts)))))
     (\<lambda>passed.
     py_seq (logging_info ''Added successfully: {}'' [Obj (PList passed)])
    (ret (PList passed))))))))"

definition create_endpoint :: "string \<Rightarrow> string \<Rightarrow> transport \<Rightarrow> pyval prog" where
  "create_endpoint token devv_url send =
     py_seq (logging_info ''Creating endpoint...'' [])
    (py_bind (requests_call send
        \<lparr>meth = POST, url = base @ ''/account/CreateEndpoint'',
         params = [(''URL'', PStr devv_url), (''Authorization'', PStr (bearer token))],
         headers = [], auth = None\<rparr>)
     (\<lambda>endpoint.
     py_seq (py_bind (expr (json endpoint)) (\<lambda>j.
               py_when (\<not> truthy j) (logging_error ''No json data received in create_endpoint()'')))
    (py_seq (py_bind (expr (json endpoint)) (\<lambda>j. py_bind (expr (py_contains ''EndpointId'' j))
               (\<lambda>present. py_when (\<not> present)
                  (logging_error ''EndpointId is missing from json response in create_endpoint()''))))
    (py_seq (py_bind (expr (json endpoint)) (\<lambda>j. py_bind (expr (py_getitem j ''EndpointId''))
               (\<lambda>v. logging_info ''Endpoint ID: {}'' [Obj v])))
    (expr (json endpoint))))))"

definition create_oauth_endpoint ::
  "string \<Rightarrow> string \<Rightarrow> string \<Rightarrow> string \<Rightarrow> string \<Rightarrow> transport \<Rightarrow> pyval prog" where
  "create_oauth_endpoint devv_url auth_url token AuthTokenType AuthTokenKey send =
     py_seq (logging_info ''Creating endpoint...'' [])
    (py_bind (requests_call send
        \<lparr>meth = POST, url = base @ ''/account/CreateEndpoint'',
         params = [(''URL'', PStr devv_url), (''AuthUrl'', PStr auth_url),
                   (''Authorization'', PStr (bearer token)),
                   (''AuthTokenType'', PStr AuthTokenType), (''AuthTokenKey'', PStr AuthTokenKey)],
         headers = [], auth = None\<rparr>)
     (\<lambda>endpoint.
     py_seq (py_bind (expr (json endpoint)) (\<lambda>j.
               py_when (\<not> truthy j) (logging_error ''No json data received in create_endpoint()'')))
    (py_seq (py_bind (expr (json endpoint)) (\<lambda>j. py_bind (expr (py_contains ''EndpointId'' j))
               (\<lambda>present. py_when (\<not> present)
                  (py_bind (expr (json endpoint)) (\<lambda>j'. py_bind (expr (py_contains ''EndpointError'' j'))
                  (\<lambda>rejected.
                     if rejected
                     then logging_error ''Failed to get a token from AuthUrl with given parameters, response from AuthUrl was 400''
                     else logging_error ''EndpointId is missing from json response in create_oauth_endpoint()''))))))
    (py_seq (py_bind (expr (json endpoint)) (\<lambda>j. py_bind (expr (py_getitem j ''EndpointId''))
               (\<lambda>v. logging_info ''Endpoint ID: {}'' [Obj v])))
    (expr (json endpoint))))))"

definition assign_to_endpoint :: "string list \<Rightarrow> string \<Rightarrow> string \<Rightarrow> transport \<Rightarrow> pyval prog" where
  "assign_to_endpoint device_ids endpoint_id token send =
     py_seq (logging_info ''Assigning devices to endpoint (ID: {})...'' [Obj (PStr endpoint_id)])
    (let dev_params =
        [(''EndpointId'', PStr endpoint_id),
         (''Devices'', PList (map (\<lambda>device_id. PDict [(''DeviceId'', PStr device_id)]) device_ids))]
     in py_bind (requests_call send
          \<lparr>meth = POST, url = base @ ''/account/AssignDevicesToEndpoint'', params = dev_params,
           headers = [(''Authorization'', bearer token)], auth = None\<rparr>)
     (\<lambda>assign_device.
     py_seq (py_bind (expr (json assign_device)) (\<lambda>j.
               py_when (\<not> truthy j) (logging_error ''No json data received in assign_to_endpoint()'')))
    (py_seq (py_bind (expr (json assign_device)) (\<lambda>j. py_bind (expr (py_contains ''DevicePassed'' j))
               (\<lambda>present. py_when (\<not> present) (logging_error ''Failed to assign devices to endpoint''))))
    (py_bind (py_bind (expr (json assign_device)) (\<lambda>j. py_bind (expr (py_getitem j ''DevicePassed''))
               (\<lambda>dp. py_bind (expr (py_iter dp))
               (\<lambda>id_dicts. expr (comprehension (\<lambda>id_dict. py_getitem id_dict ''DeviceId'') id_dicts)))))
     (\<lambda>passed.
     py_seq (logging_info ''Successfully added: {}'' [Obj (PList passed)])
    (ret (PList passed)))))))"

definition delete_from_endpoint :: "string list \<Rightarrow> string \<Rightarrow> string \<Rightarrow> transport \<Rightarrow> pyval prog" where
  "delete_from_endpoint device_ids endpoint_id token send =
     py_seq (py_print (''Deleting devices from endpoint (ID: '' @ endpoint_id @ '')...''))
    (let dev_params =
        [(''EndpointId'', PStr endpoint_id),
         (''Devices'', PList (map (\<lambda>device_id. PDict [(''DeviceId'', PStr device_id)]) device_ids))]
     in py_bind (requests_call send
          \<lparr>meth = DELETE, url = base @ ''/account/DeleteDevicesFromEndpoint'', params = dev_params,
           headers = [(''Authorization'', bearer token)], auth = None\<rparr>)
     (\<lambda>delete_device.
     py_seq (py_bind (expr (json delete_device)) (\<lambda>j.
               py_when (\<not> truthy j) (logging_error ''No json data received in delete_from_endpoint()'')))
    (py_seq (py_bind (expr (json delete_device)) (\<lambda>j. py_bind (expr (py_contains ''DevicePassed'' j))
               (\<lambda>present. py_when (\<not> present) (logging_error ''Failed to delete (devices not found)''))))
    (py_bind (py_bind (expr (json delete_device)) (\<lambda>j. py_bind (expr (py_getitem j ''DevicePassed''))
               (\<lambda>dp. py_bind (expr (py_iter dp))
               (\<lambda>id_dicts. expr (comprehension (\<lambda>id_dict. py_getitem id_dict ''DeviceId'') id_dicts)))))
     (\<lambda>passed.
     py_seq (logging_info ''Deleted: {}'' [Obj (PList passed)])
    (ret (PList passed)))))))"

definition delete_endpoints :: "string list \<Rightarrow> string \<Rightarrow> transport \<Rightarrow> pyval prog" where
  "delete_endpoints kill_points token send =
     py_seq (logging_info ''Deleting endpoints...'' [])
    (let to_delete =
        [(''Endpoints'', PList (map (\<lambda>endpoint. PDict [(''EndpointId'', PStr endpoint)]) kill_points))]
     in py_bind (requests_call send
          \<lparr>meth = DELETE, url = base @ ''/account/DeleteEndpoints'', params = to_delete,
           headers = [(''Authorization'', ''Bearer '' @ token)], auth = None\<rparr>)
     (\<lambda>deleted_endpoints.
     py_seq (py_bind (expr (json deleted_endpoints)) (\<lambda>j.
               py_when (\<not> truthy j) (logging_error ''No json data received in delete_endpoints()'')))
    (py_seq (py_bind (expr (json deleted_endpoints)) (\<lambda>j. py_bind (expr (py_contains ''EndpointsDeleted'' j))
               (\<lambda>present. py_when (\<not> present) (logging_error ''Endpoints not found''))))
    (py_bind (py_bind (expr (json deleted_endpoints)) (\<lambda>j. py_bind (expr (py_getitem j ''EndpointsDeleted''))
               (\<lambda>ed. py_bind (expr (py_iter ed))
               (\<lambda>point_dicts. expr (comprehension (\<lambda>point_dict. py_getitem point_dict ''EndpointId'') point_dicts)))))
     (\<lambda>deleted.
     py_seq (logging_info ''Deleted endpoints: {}'' [Obj (PList deleted)])
    (ret (PList deleted)))))))"

text \<open>The body of the loop of \<^verbatim>\<open>get_endpoints\<close>: \<^verbatim>\<open>logging.info('Found: {}'.format(entry.values()))\<close>.\<close>

definition log_found :: "pyval \<Rightarrow> unit prog" where
  "log_found entry = py_bind (expr (py_values entry)) (\<lambda>vs. logging_info ''Found: {}'' [vs])"

definition get_endpoints :: "string \<Rightarrow> transport \<Rightarrow> pyval prog" where
  "get_endpoints token send =
     py_seq (logging_info ''Requesting list of endpoints...'' [])
    (py_bind (requests_call send
        \<lparr>meth = GET, url = base @ ''/account/GetEndpoints/'', params = [],
         headers = [(''Authorization'', bearer token)], auth = None\<rparr>)
     (\<lambda>endpoints.
     py_seq (py_bind (expr (json endpoints)) (\<lambda>j.
               py_when (\<not> truthy j) (logging_error ''No json data received in get_endpoints()'')))
    (py_seq (py_bind (expr (json endpoints)) (\<lambda>j. py_bind (expr (py_contains ''EndpointId'' j))
               (\<lambda>present. py_when (\<not> present)
                  (logging_error ''Endpoints are missing from json response in get_endpoints()''))))
    (py_seq (py_bind (expr (json endpoints)) (\<lambda>j. py_bind (expr (py_getitem j ''Endpoints''))
               (\<lambda>es. py_bind (expr (py_iter es))
               (for_each log_found))))
    (py_bind (expr (json endpoints)) (\<lambda>j. expr (py_getitem j ''Endpoints'')))))))"

definition get_devices :: "string \<Rightarrow> transport \<Rightarrow> pyval prog" where
  "get_devices token send =
     py_seq (logging_info ''Requesting list of devices...'' [])
    (py_bind (requests_call send
        \<lparr>meth = GET, url = base @ ''/account/GetDevices/'', params = [],
         headers = [(''Authorization'', bearer token)], auth = None\<rparr>)
     (\<lambda>devices.
     py_seq (py_when (\<not> ok devices) (logging_error ''No json data received in get_devices()''))
    (py_seq (py_when (\<not> response_contains ''Devices'' devices) (logging_error ''No devices found''))
    (py_bind (py_bind (expr (response_getitem devices ''Devices''))
               (\<lambda>ds. py_bind (expr (py_iter ds))
               (\<lambda>entries. expr (comprehension (\<lambda>entry. py_getitem entry ''DeviceId'') entries))))
     (\<lambda>found.
     py_seq (logging_info ''Found devices: {}'' [Obj (PList found)])
    (py_bind (expr (json devices)) (\<lambda>j. expr (py_getitem j ''Devices''))))))))"

definition get_devices_by_location :: "string \<Rightarrow> transport \<Rightarrow> pyval prog" where
  "get_devices_by_location token send =
     py_seq (logging_info ''Requesting device list by location...'' [])
    (py_bind (requests_call send
        \<lparr>meth = GET, url = base @ ''/account/GetDevicesByLocation/'', params = [],
         headers = [(''Authorization'', bearer token)], auth = None\<rparr>)
     (\<lambda>devices.
     py_seq (py_when (\<not> ok devices) (logging_error ''No json data received in get_devices_by_location()''))
    (py_seq (py_when (\<not> response_contains ''Devices'' devices) (logging_error ''No devices found''))
    (py_seq (py_bind (expr (comprehension (\<lambda>entry. bytes_getitem entry ''LocationName'') (response_iter devices)))
               (\<lambda>names. logging_info ''Locations found: {}'' [Obj (PList names)]))
    (expr (json devices))))))"

definition get_locations :: "string \<Rightarrow> transport \<Rightarrow> pyval prog" where
  "get_locations token send =
     py_seq (logging_info ''Requesting location list...'' [])
    (py_bind (requests_call send
        \<lparr>meth = GET, url = base @ ''/account/GetLocations/'', params = [],
         headers = [(''Authorization'', bearer token)], auth = None\<rparr>)
     (\<lambda>locations.
     py_seq (py_when (\<not> ok locations) (logging_error ''No json data received in get_locations()''))
    (py_seq (py_bind (expr (comprehension (\<lambda>entry. bytes_getitem entry ''LocationName'') (response_iter locations)))
               (\<lambda>names. logging_info ''Locations found: {}'' [Obj (PList names)]))
    (expr (json locations)))))"

definition get_location_reports :: "string \<Rightarrow> transport \<Rightarrow> pyval prog" where
  "get_location_reports token send =
     py_seq (logging_info ''Requesting location reports...'' [])
    (py_bind (requests_call send
        \<lparr>meth = GET, url = base @ ''/account/GetLocationReports'', params = [],
         headers = [(''Authorization'', bearer token)], auth = None\<rparr>)
     (\<lambda>reports.
     py_seq (py_when (\<not> ok reports) (logging_error ''No json data received in get_location_reports''))
    (py_seq (py_bind (expr (comprehension (\<lambda>entry. bytes_getitem entry ''LocationName'') (response_iter reports)))
               (\<lambda>names. logging_info ''Reports generated for: {}'' [Obj (PList names)]))
    (expr (json reports)))))"

section \<open>Running the programs\<close>

lemmas exec_defs = run_def py_bind_def py_seq_def expr_def ret_def py_when_def
  logging_info_def logging_error_def py_print_def requests_call_def respond_with_def

lemma comprehension_list_all2:
  "comprehension f xs = Inr ys \<longleftrightarrow> list_all2 (\<lambda>x y. f x = Inr y) xs ys"
proof (induction xs arbitrary: ys)
  case Nil
  show ?case by auto
next
  case (Cons x xs)
  show ?case
    by (cases ys; cases "f x"; cases "comprehension f xs") (auto simp: Cons.IH [symmetric])
qed

lemma comprehension_map:
  assumes "\<And>x. x \<in> set xs \<Longrightarrow> f x = Inr (g x)"
  shows "comprehension f xs = Inr (map g xs)"
  using assms by (induction xs) auto

lemma comprehension_Inl:
  "comprehension f xs = Inl e \<Longrightarrow> \<exists>x\<in>set xs. f x = Inl e"
  by (induction xs) (auto split: sum.splits)

lemma dev_code_pair_ok:
  assumes "i < length new_ids" "i < length new_acs"
  shows "dev_code_pair new_ids new_acs i =
    Inr (PDict [(''DeviceId'', PStr (new_ids ! i)), (''ActivationCode'', PStr (new_acs ! i))])"
  using assms by (simp add: dev_code_pair_def list_getitem_def)

lemma dev_code_pair_Inl:
  "dev_code_pair new_ids new_acs i = Inl e \<Longrightarrow> e = IndexError"
  by (auto simp: dev_code_pair_def list_getitem_def split: if_splits)

lemma dev_code_pairs_ok:
  assumes "length new_ids \<le> length new_acs"
  shows "comprehension (dev_code_pair new_ids new_acs) [0 ..< length new_ids] =
    Inr (map (\<lambda>(d, a). PDict [(''DeviceId'', PStr d), (''ActivationCode'', PStr a)]) (zip new_ids new_acs))"
proof -
  have "comprehension (dev_code_pair new_ids new_acs) [0 ..< length new_ids] =
      Inr (map (\<lambda>i. PDict [(''DeviceId'', PStr (new_ids ! i)), (''ActivationCode'', PStr (new_acs ! i))])
             [0 ..< length new_ids])"
    using assms by (intro comprehension_map) (simp add: dev_code_pair_ok)
  also have "map (\<lambda>i. PDict [(''DeviceId'', PStr (new_ids ! i)), (''ActivationCode'', PStr (new_acs ! i))])
             [0 ..< length new_ids] =
     map (\<lambda>(d, a). PDict [(''DeviceId'', PStr d), (''ActivationCode'', PStr a)]) (zip new_ids new_acs)"
    using assms by (intro nth_equalityI) auto
  finally show ?thesis .
qed

lemma dev_code_pairs_short:
  assumes "length new_acs < length new_ids"
  shows "comprehension (dev_code_pair new_ids new_acs) [0 ..< length new_ids] = Inl IndexError"
proof (cases "comprehension (dev_code_pair new_ids new_acs) [0 ..< length new_ids]")
  case (Inl e)
  then obtain i where "dev_code_pair new_ids new_acs i = Inl e"
    using comprehension_Inl by blast
  then have "e = IndexError" by (rule dev_code_pair_Inl)
  with Inl show ?thesis by simp
next
  case (Inr ys)
  then have "list_all2 (\<lambda>i y. dev_code_pair new_ids new_acs i = Inr y) [0 ..< length new_ids] ys"
    by (simp add: comprehension_list_all2)
  then have "dev_code_pair new_ids new_acs ([0 ..< length new_ids] ! length new_acs) = Inr (ys ! length new_acs)"
    using assms by (simp add: list_all2_conv_all_nth)
  then show ?thesis
    using assms by (simp add: dev_code_pair_def list_getitem_def)
qed


lemma add_devices_issued:
  assumes "length new_ids \<le> length new_acs"
  shows "issued (snd (run (add_devices new_ids new_acs token send))) =
    [\<lparr>meth = POST, url = base @ ''/account/AddDevices'',
      params = [(''Authorization'', PStr (bearer token)),
                (''devices'', PList (map (\<lambda>(d, a). PDict [(''DeviceId'', PStr d), (''ActivationCode'', PStr a)])
                   (zip new_ids new_acs)))],
      headers = [], auth = None\<rparr>]"
  by (simp add: add_devices_def exec_defs Let_def dev_code_pairs_ok [OF assms] split: sum.split prod.split)

lemma add_devices_short:
  assumes "length new_acs < length new_ids"
  shows "run (add_devices new_ids new_acs token send) =
        (Inl IndexError, \<lparr>issued = [], logged = [Log INFO ''Adding devices...'' []], printed = []\<rparr>)"
  by (simp add: add_devices_def exec_defs dev_code_pairs_short [OF assms])

lemma zip_take_right: "zip xs (take (length xs) ys) = zip xs ys"
proof (induction xs arbitrary: ys)
  case Nil
  show ?case by simp
next
  case (Cons a xs)
  then show ?case by (cases ys) simp_all
qed

lemma add_devices_long:
  assumes "length new_ids < length new_acs"
  shows "run (add_devices new_ids new_acs token send) =
        run (add_devices new_ids (take (length new_ids) new_acs) token send)"
proof -
  have "comprehension (dev_code_pair new_ids new_acs) [0 ..< length new_ids] =
     comprehension (dev_code_pair new_ids (take (length new_ids) new_acs)) [0 ..< length new_ids]"
    using assms by (simp add: dev_code_pairs_ok zip_take_right)
  then show ?thesis
    unfolding add_devices_def by (simp only:)
qed

subsection \<open>A response whose JSON object lacks the expected key\<close>

lemma map_of_absent: "k \<notin> fst ` set d \<Longrightarrow> map_of d k = None"
  by (simp add: map_of_eq_None_iff)

lemma get_token_no_key:
  assumes "json r = Inr (PDict d)" and "''access_token'' \<notin> fst ` set d"
  shows "run (get_token client_id client_secret (respond_with r)) =
    (Inl (KeyError ''access_token''),
     \<lparr>issued = [\<lparr>meth = GET, url = base @ ''/auth/RequestToken'',
         params = [(''grant_type'', PStr ''client_credentials''),
                   (''client_id'', PStr client_id),
                   (''client_secret'', PStr client_secret),
                   (''content-type'', PStr ''application/x-www-form-urlencoded'')],
         headers = [], auth = Some (''user'', ''pass'')\<rparr>],
      logged = [Log INFO ''Requesting token...'' []] @
         (if d = [] then [Log ERROR ''No json data received in get_token()'' []] else []) @
         [Log ERROR ''No token received'' [], Log INFO ''Status code: {}'' [Obj (PInt (status_code r))]],
      printed = []\<rparr>)"
  using assms by (simp add: get_token_def exec_defs map_of_absent)

lemma add_devices_no_key:
  assumes "length new_ids \<le> length new_acs"
    and "json r = Inr (PDict d)" and "''DevicesPassed'' \<notin> fst ` set d"
  shows "fst (run (add_devices new_ids new_acs token (respond_with r))) = Inl (KeyError ''DevicesPassed'')"
    and "Log ERROR ''Failed to add any devices'' [] \<in> set (logged (snd (run (add_devices new_ids new_acs token (respond_with r)))))"
  using assms by (simp_all add: add_devices_def exec_defs Let_def dev_code_pairs_ok map_of_absent)

lemma create_endpoint_no_key:
  assumes "json r = Inr (PDict d)" and "''EndpointId'' \<notin> fst ` set d"
  shows "fst (run (create_endpoint token devv_url (respond_with r))) = Inl (KeyError ''EndpointId'')"
    and "Log ERROR ''EndpointId is missing from json response in create_endpoint()'' []
      \<in> set (logged (snd (run (create_endpoint token devv_url (respond_with r)))))"
  using assms by (simp_all add: create_endpoint_def exec_defs map_of_absent)

lemma create_oauth_endpoint_no_key:
  assumes "json r = Inr (PDict d)" and "''EndpointId'' \<notin> fst ` set d"
  shows "run (create_oauth_endpoint devv_url auth_url token AuthTokenType AuthTokenKey (respond_with r)) =
    (Inl (KeyError ''EndpointId''),
     \<lparr>issued = [\<lparr>meth = POST, url = base @ ''/account/CreateEndpoint'',
         params = [(''URL'', PStr devv_url), (''AuthUrl'', PStr auth_url),
                   (''Authorization'', PStr (bearer token)),
                   (''AuthTokenType'', PStr AuthTokenType), (''AuthTokenKey'', PStr AuthTokenKey)],
         headers = [], auth = None\<rparr>],
      logged = [Log INFO ''Creating endpoint...'' []] @
         (if d = [] then [Log ERROR ''No json data received in create_endpoint()'' []] else []) @
         [if ''EndpointError'' \<in> fst ` set d
          then Log ERROR ''Failed to get a token from AuthUrl with given parameters, response from AuthUrl was 400'' []
          else Log ERROR ''EndpointId is missing from json response in create_oauth_endpoint()'' []],
      printed = []\<rparr>)"
  using assms by (simp add: create_oauth_endpoint_def exec_defs map_of_absent)

lemma assign_to_endpoint_no_key:
  assumes "json r = Inr (PDict d)" and "''DevicePassed'' \<notin> fst ` set d"
  shows "fst (run (assign_to_endpoint device_ids endpoint_id token (respond_with r))) = Inl (KeyError ''DevicePassed'')"
    and "Log ERROR ''Failed to assign devices to endpoint'' []
      \<in> set (logged (snd (run (assign_to_endpoint device_ids endpoint_id token (respond_with r)))))"
  using assms by (simp_all add: assign_to_endpoint_def exec_defs Let_def map_of_absent)

lemma delete_from_endpoint_no_key:
  assumes "json r = Inr (PDict d)" and "''DevicePassed'' \<notin> fst ` set d"
  shows "fst (run (delete_from_endpoint device_ids endpoint_id token (respond_with r))) = Inl (KeyError ''DevicePassed'')"
    and "Log ERROR ''Failed to delete (devices not found)'' []
      \<in> set (logged (snd (run (delete_from_endpoint device_ids endpoint_id token (respond_with r)))))"
  using assms by (simp_all add: delete_from_endpoint_def exec_defs Let_def map_of_absent)

lemma delete_endpoints_no_key:
  assumes "json r = Inr (PDict d)" and "''EndpointsDeleted'' \<notin> fst ` set d"
  shows "fst (run (delete_endpoints kill_points token (respond_with r))) = Inl (KeyError ''EndpointsDeleted'')"
    and "Log ERROR ''Endpoints not found'' []
      \<in> set (logged (snd (run (delete_endpoints kill_points token (respond_with r)))))"
  using assms by (simp_all add: delete_endpoints_def exec_defs Let_def map_of_absent)

subsection \<open>Reading the response object instead of its JSON body\<close>

lemma response_iter_empty: "content r = [] \<Longrightarrow> response_iter r = []"
  by (simp add: response_iter_def)

lemma response_iter_nonempty:
  "content r \<noteq> [] \<Longrightarrow> response_iter r = take 128 (content r) # iter_slices (drop 128 (content r)) 128"
  unfolding response_iter_def by (subst iter_slices.simps) (simp add: Let_def)

lemma bytes_comprehension:
  "comprehension (\<lambda>entry. bytes_getitem entry k) (response_iter r) =
     (if content r = [] then Inr [] else Inl TypeError)"
  by (simp add: response_iter_empty response_iter_nonempty bytes_getitem_def)

lemma get_devices_result:
  "fst (run (get_devices token send)) =
     (case send \<lparr>meth = GET, url = base @ ''/account/GetDevices/'', params = [],
         headers = [(''Authorization'', bearer token)], auth = None\<rparr> of
        Inl e \<Rightarrow> Inl e | Inr r \<Rightarrow> Inl TypeError)"
  by (simp add: get_devices_def exec_defs response_getitem_def split: sum.split)

lemma get_devices_by_location_result:
  "fst (run (get_devices_by_location token send)) =
     (case send \<lparr>meth = GET, url = base @ ''/account/GetDevicesByLocation/'', params = [],
         headers = [(''Authorization'', bearer token)], auth = None\<rparr> of
        Inl e \<Rightarrow> Inl e
      | Inr r \<Rightarrow> if content r = [] then Inl JSONDecodeError else Inl TypeError)"
  by (simp add: get_devices_by_location_def exec_defs bytes_comprehension json_def split: sum.split)

lemma get_locations_result:
  "fst (run (get_locations token send)) =
     (case send \<lparr>meth = GET, url = base @ ''/account/GetLocations/'', params = [],
         headers = [(''Authorization'', bearer token)], auth = None\<rparr> of
        Inl e \<Rightarrow> Inl e
      | Inr r \<Rightarrow> if content r = [] then Inl JSONDecodeError else Inl TypeError)"
  by (simp add: get_locations_def exec_defs bytes_comprehension json_def split: sum.split)

lemma get_location_reports_result:
  "fst (run (get_location_reports token send)) =
     (case send \<lparr>meth = GET, url = base @ ''/account/GetLocationReports'', params = [],
         headers = [(''Authorization'', bearer token)], auth = None\<rparr> of
        Inl e \<Rightarrow> Inl e
      | Inr r \<Rightarrow> if content r = [] then Inl JSONDecodeError else Inl TypeError)"
  by (simp add: get_location_reports_def exec_defs bytes_comprehension json_def split: sum.split)

subsection \<open>The loop of \<^verbatim>\<open>get_endpoints\<close>\<close>

lemma for_each_found:
  "for_each log_found (map PDict kvs) w =
   (Inr (), w\<lparr>logged := logged w @ map (\<lambda>kv. Log INFO ''Found: {}'' [DictValues (map snd kv)]) kvs\<rparr>)"
  by (induction kvs arbitrary: w) (simp_all add: log_found_def exec_defs)

subsection \<open>What \<^verbatim>\<open>add_devices\<close> extracts from the response\<close>

lemma device_ids_of:
  assumes "map (\<lambda>kv. map_of kv ''DeviceId'') kvs = map Some vs"
  shows "comprehension (\<lambda>id_dict. py_getitem id_dict ''DeviceId'') (map PDict kvs) = Inr vs"
  using assms
proof (induction kvs arbitrary: vs)
  case Nil
  then show ?case by simp
next
  case (Cons kv kvs)
  then obtain v vs' where "vs = v # vs'" by (cases vs) auto
  with Cons show ?case by simp
qed

lemma add_devices_accepted:
  assumes "length new_ids \<le> length new_acs"
    and "json r = Inr (PDict d)"
    and "map_of d ''DevicesPassed'' = Some (PList (map PDict kvs))"
    and "map (\<lambda>kv. map_of kv ''DeviceId'') kvs = map Some vs"
  shows "fst (run (add_devices new_ids new_acs token (respond_with r))) = Inr (PList vs)"
proof -
  from assms(3) have "d \<noteq> []" by auto
  moreover from assms(3) have "''DevicesPassed'' \<in> fst ` set d"
    by (metis map_of_eq_None_iff option.distinct(1))
  ultimately show ?thesis
    using assms by (simp add: add_devices_def exec_defs Let_def dev_code_pairs_ok device_ids_of)
qed

lemma zip_by_index:
  assumes "length xs = length ys"
  shows "map (\<lambda>(d, a). f d a) (zip xs ys) = map (\<lambda>i. f (xs ! i) (ys ! i)) [0 ..< length xs]"
  using assms by (intro nth_equalityI) auto

subsection \<open>The requests issued\<close>

lemma create_endpoint_issued:
  "issued (snd (run (create_endpoint token devv_url send))) =
     [\<lparr>meth = POST, url = base @ ''/account/CreateEndpoint'',
       params = [(''URL'', PStr devv_url), (''Authorization'', PStr (bearer token))],
       headers = [], auth = None\<rparr>]"
  by (simp add: create_endpoint_def exec_defs split: sum.split prod.split)

lemma create_oauth_endpoint_issued:
  "issued (snd (run (create_oauth_endpoint devv_url auth_url token AuthTokenType AuthTokenKey send))) =
     [\<lparr>meth = POST, url = base @ ''/account/CreateEndpoint'',
       params = [(''URL'', PStr devv_url), (''AuthUrl'', PStr auth_url),
                 (''Authorization'', PStr (bearer token)),
                 (''AuthTokenType'', PStr AuthTokenType), (''AuthTokenKey'', PStr AuthTokenKey)],
       headers = [], auth = None\<rparr>]"
  by (simp add: create_oauth_endpoint_def exec_defs split: sum.split prod.split)

lemma assign_to_endpoint_issued:
  "issued (snd (run (assign_to_endpoint device_ids endpoint_id token send))) =
     [\<lparr>meth = POST, url = base @ ''/account/AssignDevicesToEndpoint'',
       params = [(''EndpointId'', PStr endpoint_id),
                 (''Devices'', PList (map (\<lambda>device_id. PDict [(''DeviceId'', PStr device_id)]) device_ids))],
       headers = [(''Authorization'', bearer token)], auth = None\<rparr>]"
  by (simp add: assign_to_endpoint_def exec_defs Let_def split: sum.split prod.split)

text \<open>
  Everything an operation does after its call of \<^verbatim>\<open>requests\<close> leaves the list of issued
  requests alone, so the request can be read off without following the response.
\<close>

lemma issued_bind:
  assumes "\<And>w. issued (snd (m w)) = issued w" and "\<And>x w. issued (snd (f x w)) = issued w"
  shows "issued (snd (py_bind m f w)) = issued w"
proof (cases "m w")
  case (Pair res w')
  with assms(1) [of w] have "issued w' = issued w" by simp
  with Pair assms(2) show ?thesis
    by (cases res) (simp_all add: py_bind_def)
qed

lemma issued_seq:
  assumes "\<And>w. issued (snd (m w)) = issued w" and "\<And>w. issued (snd (k w)) = issued w"
  shows "issued (snd (py_seq m k w)) = issued w"
  unfolding py_seq_def using assms by (rule issued_bind)

lemma issued_basic:
  "issued (snd (ret x w)) = issued w"
  "issued (snd (expr v w)) = issued w"
  "issued (snd (logging_error msg w)) = issued w"
  "issued (snd (logging_info msg args w)) = issued w"
  "issued (snd (py_print line w)) = issued w"
  by (simp_all add: ret_def expr_def logging_error_def logging_info_def py_print_def)

lemma issued_when:
  assumes "\<And>w. issued (snd (m w)) = issued w"
  shows "issued (snd (py_when b m w)) = issued w"
  using assms by (simp add: py_when_def issued_basic)

lemma issued_if:
  assumes "\<And>w. issued (snd (m w)) = issued w" and "\<And>w. issued (snd (k w)) = issued w"
  shows "issued (snd ((if b then m else k) w)) = issued w"
  using assms by simp

lemma issued_for_each:
  assumes "\<And>x w. issued (snd (body x w)) = issued w"
  shows "issued (snd (for_each body xs w)) = issued w"
proof (induction xs arbitrary: w)
  case Nil
  show ?case by (simp add: issued_basic)
next
  case (Cons x xs)
  show ?case
    unfolding for_each.simps by (rule issued_seq) (rule assms, rule Cons.IH)
qed

lemmas issued_intros = issued_bind issued_seq issued_when issued_if issued_for_each issued_basic

lemma issued_call:
  assumes "\<And>r w. issued (snd (k r w)) = issued w"
  shows "issued (snd (py_bind (requests_call send req) k w)) = issued w @ [req]"
  using assms by (cases "send req") (simp_all add: py_bind_def requests_call_def)

lemma bind_value: "m w = (Inr x, w') \<Longrightarrow> py_bind m f w = f x w'"
  by (simp add: py_bind_def)

lemma issued_log_call:
  assumes "\<And>r w. issued (snd (k r w)) = issued w"
  shows "issued (snd (py_seq (logging_info msg args) (py_bind (requests_call send req) k) w)) = issued w @ [req]"
proof -
  have "py_seq (logging_info msg args) (py_bind (requests_call send req) k) w =
      py_bind (requests_call send req) k (w\<lparr>logged := logged w @ [Log INFO msg args]\<rparr>)"
    unfolding py_seq_def by (rule bind_value) (simp add: logging_info_def)
  moreover have "issued (snd (py_bind (requests_call send req) k (w\<lparr>logged := logged w @ [Log INFO msg args]\<rparr>))) =
      issued (w\<lparr>logged := logged w @ [Log INFO msg args]\<rparr>) @ [req]"
    using assms by (rule issued_call)
  ultimately show ?thesis by simp
qed

lemma log_found_issued: "issued (snd (log_found entry w)) = issued w"
  unfolding log_found_def by (intro issued_intros)

lemma get_endpoints_issued:
  "issued (snd (run (get_endpoints token send))) =
     [\<lparr>meth = GET, url = base @ ''/account/GetEndpoints/'', params = [],
       headers = [(''Authorization'', bearer token)], auth = None\<rparr>]"
  unfolding run_def get_endpoints_def
  by (subst issued_log_call) (intro issued_intros log_found_issued, simp)

lemma issued_print_call:
  assumes "\<And>r w. issued (snd (k r w)) = issued w"
  shows "issued (snd (py_seq (py_print line) (py_bind (requests_call send req) k) w)) = issued w @ [req]"
proof -
  have "py_seq (py_print line) (py_bind (requests_call send req) k) w =
      py_bind (requests_call send req) k (w\<lparr>printed := printed w @ [line]\<rparr>)"
    unfolding py_seq_def by (rule bind_value) (simp add: py_print_def)
  moreover have "issued (snd (py_bind (requests_call send req) k (w\<lparr>printed := printed w @ [line]\<rparr>))) =
      issued (w\<lparr>printed := printed w @ [line]\<rparr>) @ [req]"
    using assms by (rule issued_call)
  ultimately show ?thesis by simp
qed

lemma delete_from_endpoint_issued:
  "issued (snd (run (delete_from_endpoint device_ids endpoint_id token send))) =
     [\<lparr>meth = DELETE, url = base @ ''/account/DeleteDevicesFromEndpoint'',
       params = [(''EndpointId'', PStr endpoint_id),
                 (''Devices'', PList (map (\<lambda>device_id. PDict [(''DeviceId'', PStr device_id)]) device_ids))],
       headers = [(''Authorization'', bearer token)], auth = None\<rparr>]"
  unfolding run_def delete_from_endpoint_def Let_def
  by (subst issued_print_call) (intro issued_intros, simp)

lemma delete_endpoints_issued:
  "issued (snd (run (delete_endpoints kill_points token send))) =
     [\<lparr>meth = DELETE, url = base @ ''/account/DeleteEndpoints'',
       params = [(''Endpoints'', PList (map (\<lambda>endpoint. PDict [(''EndpointId'', PStr endpoint)]) kill_points))],
       headers = [(''Authorization'', bearer token)], auth = None\<rparr>]"
  unfolding run_def delete_endpoints_def Let_def bearer_def
  by (subst issued_log_call) (intro issued_intros, simp)

lemma get_devices_issued:
  "issued (snd (run (get_devices token send))) =
     [\<lparr>meth = GET, url = base @ ''/account/GetDevices/'', params = [],
       headers = [(''Authorization'', bearer token)], auth = None\<rparr>]"
  unfolding run_def get_devices_def
  by (subst issued_log_call) (intro issued_intros, simp)

lemma get_devices_by_location_issued:
  "issued (snd (run (get_devices_by_location token send))) =
     [\<lparr>meth = GET, url = base @ ''/account/GetDevicesByLocation/'', params = [],
       headers = [(''Authorization'', bearer token)], auth = None\<rparr>]"
  unfolding run_def get_devices_by_location_def
  by (subst issued_log_call) (intro issued_intros, simp)

lemma get_locations_issued:
  "issued (snd (run (get_locations token send))) =
     [\<lparr>meth = GET, url = base @ ''/account/GetLocations/'', params = [],
       headers = [(''Authorization'', bearer token)], auth = None\<rparr>]"
  unfolding run_def get_locations_def
  by (subst issued_log_call) (intro issued_intros, simp)

lemma get_location_reports_issued:
  "issued (snd (run (get_location_reports token send))) =
     [\<lparr>meth = GET, url = base @ ''/account/GetLocationReports'', params = [],
       headers = [(''Authorization'', bearer token)], auth = None\<rparr>]"
  unfolding run_def get_location_reports_def
  by (subst issued_log_call) (intro issued_intros, simp)

lemma bearer_header_operations:
  "map headers (issued (snd (run (assign_to_endpoint device_ids endpoint_id token send)))) =
     [[(''Authorization'', bearer token)]]"
  "map headers (issued (snd (run (delete_from_endpoint device_ids endpoint_id token send)))) =
     [[(''Authorization'', bearer token)]]"
  "map headers (issued (snd (run (delete_endpoints kill_points token send)))) =
     [[(''Authorization'', bearer token)]]"
  "map headers (issued (snd (run (get_endpoints token send)))) = [[(''Authorization'', bearer token)]]"
  "map headers (issued (snd (run (get_devices token send)))) = [[(''Authorization'', bearer token)]]"
  "map headers (issued (snd (run (get_devices_by_location token send)))) = [[(''Authorization'', bearer token)]]"
  "map headers (issued (snd (run (get_locations token send)))) = [[(''Authorization'', bearer token)]]"
  "map headers (issued (snd (run (get_location_reports token send)))) = [[(''Authorization'', bearer token)]]"
  by (simp_all add: assign_to_endpoint_issued delete_from_endpoint_issued delete_endpoints_issued
      get_endpoints_issued get_devices_issued get_devices_by_location_issued get_locations_issued
      get_location_reports_issued)

text \<open>The query string of the request of \<^verbatim>\<open>add_devices\<close> depends on the number of ids alone.\<close>

lemma add_devices_query:
  assumes "length new_ids \<le> length new_acs"
  shows "map query_of (issued (snd (run (add_devices new_ids new_acs token send)))) =
     [(''Authorization'', Text (bearer token)) #
      concat (replicate (length new_ids) [(''devices'', Text ''DeviceId''), (''devices'', Text ''ActivationCode'')])]"
proof -
  have "concat (map (\<lambda>z. [(''devices'', Text ''DeviceId''), (''devices'', Text ''ActivationCode'')]) (zip new_ids new_acs)) =
      concat (replicate (length new_ids) [(''devices'', Text ''DeviceId''), (''devices'', Text ''ActivationCode'')])"
    using assms by (simp add: map_replicate_const)
  then show ?thesis
    by (simp add: add_devices_issued [OF assms] query_of_def urlencode_def encode_params_def
        filter_map comp_def case_prod_beta)
qed

subsection \<open>The version request\<close>

lemma print_version_run:
  assumes "json r = Inr (PDict d)" and "map_of d ''Version'' = Some v"
  shows "run (print_version (respond_with r)) =
    (Inr PNone,
     \<lparr>issued = [\<lparr>meth = GET, url = base @ ''/account/GetVersion'', params = [], headers = [], auth = None\<rparr>],
      logged = (if ok r then [] else [Log ERROR ''No json data received in print_version()'' []]) @
               [Log INFO ''Requesting version...'' [],
                Log INFO ''Status code: {}'' [Obj (PInt (status_code r))],
                Log INFO ''Version: {}'' [Obj v]],
      printed = []\<rparr>)"
  using assms by (simp add: print_version_def exec_defs)

section \<open>Lists of unequal length in \<^verbatim>\<open>add_devices\<close>\<close>

text \<open>
  Claim C10. When the list of activation codes is strictly shorter than the list of device
  ids, \<^verbatim>\<open>add_devices\<close> raises \<^verbatim>\<open>IndexError\<close> while it builds the request: nothing has been
  sent, and only the opening log line has been written. When the list of activation codes
  is strictly longer, the call behaves exactly as the call with the surplus codes cut off:
  the one request issued pairs the ids with the first codes, and the rest are ignored.
\<close>

theorem add_devices_unequal_lengths:
  "(length new_acs < length new_ids \<longrightarrow>
      run (add_devices new_ids new_acs token send) =
        (Inl IndexError, \<lparr>issued = [], logged = [Log INFO ''Adding devices...'' []], printed = []\<rparr>)) \<and>
   (length new_ids < length new_acs \<longrightarrow>
      run (add_devices new_ids new_acs token send) =
        run (add_devices new_ids (take (length new_ids) new_acs) token send) \<and>
      issued (snd (run (add_devices new_ids new_acs token send))) =
        [\<lparr>meth = POST, url = base @ ''/account/AddDevices'',
          params = [(''Authorization'', PStr (bearer token)),
                    (''devices'', PList (map (\<lambda>(d, a). PDict [(''DeviceId'', PStr d), (''ActivationCode'', PStr a)])
                       (zip new_ids new_acs)))],
          headers = [], auth = None\<rparr>])"
proof (intro conjI impI)
  assume "length new_acs < length new_ids"
  then show "run (add_devices new_ids new_acs token send) =
      (Inl IndexError, \<lparr>issued = [], logged = [Log INFO ''Adding devices...'' []], printed = []\<rparr>)"
    by (rule add_devices_short)
next
  assume "length new_ids < length new_acs"
  then show "run (add_devices new_ids new_acs token send) =
      run (add_devices new_ids (take (length new_ids) new_acs) token send)"
    by (rule add_devices_long)
next
  assume "length new_ids < length new_acs"
  then have "length new_ids \<le> length new_acs" by simp
  then show "issued (snd (run (add_devices new_ids new_acs token send))) =
        [\<lparr>meth = POST, url = base @ ''/account/AddDevices'',
          params = [(''Authorization'', PStr (bearer token)),
                    (''devices'', PList (map (\<lambda>(d, a). PDict [(''DeviceId'', PStr d), (''ActivationCode'', PStr a)])
                       (zip new_ids new_acs)))],
          headers = [], auth = None\<rparr>]"
    by (rule add_devices_issued)
qed

theorem add_devices_unequal_lengths_witness:
  "length [''ac-1''] < length [''dev-1'', ''dev-2''] \<and>
   run (add_devices [''dev-1'', ''dev-2''] [''ac-1''] ''tok''
          (respond_with \<lparr>status_code = 200, content = ''{}'', body_json = Some (PDict [])\<rparr>)) =
     (Inl IndexError, \<lparr>issued = [], logged = [Log INFO ''Adding devices...'' []], printed = []\<rparr>) \<and>
   length [''dev-1''] < length [''ac-1'', ''ac-2''] \<and>
   issued (snd (run (add_devices [''dev-1''] [''ac-1'', ''ac-2''] ''tok''
          (respond_with \<lparr>status_code = 200, content = ''{}'', body_json = Some (PDict [])\<rparr>)))) =
     [\<lparr>meth = POST, url = base @ ''/account/AddDevices'',
       params = [(''Authorization'', PStr (bearer ''tok'')),
                 (''devices'', PList [PDict [(''DeviceId'', PStr ''dev-1''), (''ActivationCode'', PStr ''ac-1'')]])],
       headers = [], auth = None\<rparr>]"
proof -
  let ?send = "respond_with \<lparr>status_code = 200, content = ''{}'', body_json = Some (PDict [])\<rparr>"
  have short: "length [''ac-1''] < length [''dev-1'', ''dev-2'']"
    by simp
  have long: "length [''dev-1''] < length [''ac-1'', ''ac-2'']"
    by simp
  from short add_devices_unequal_lengths [of "[''ac-1'']" "[''dev-1'', ''dev-2'']" "''tok''" ?send]
  have raised: "run (add_devices [''dev-1'', ''dev-2''] [''ac-1''] ''tok'' ?send) =
     (Inl IndexError, \<lparr>issued = [], logged = [Log INFO ''Adding devices...'' []], printed = []\<rparr>)"
    by blast
  from long add_devices_unequal_lengths [of "[''ac-1'', ''ac-2'']" "[''dev-1'']" "''tok''" ?send]
  have "issued (snd (run (add_devices [''dev-1''] [''ac-1'', ''ac-2''] ''tok'' ?send))) =
        [\<lparr>meth = POST, url = base @ ''/account/AddDevices'',
          params = [(''Authorization'', PStr (bearer ''tok'')),
                    (''devices'', PList (map (\<lambda>(d, a). PDict [(''DeviceId'', PStr d), (''ActivationCode'', PStr a)])
                       (zip [''dev-1''] [''ac-1'', ''ac-2''])))],
          headers = [], auth = None\<rparr>]"
    by blast
  then have sent: "issued (snd (run (add_devices [''dev-1''] [''ac-1'', ''ac-2''] ''tok'' ?send))) =
     [\<lparr>meth = POST, url = base @ ''/account/AddDevices'',
       params = [(''Authorization'', PStr (bearer ''tok'')),
                 (''devices'', PList [PDict [(''DeviceId'', PStr ''dev-1''), (''ActivationCode'', PStr ''ac-1'')]])],
       headers = [], auth = None\<rparr>]"
    by simp
  from short raised long sent show ?thesis
    by (intro conjI)
qed

section \<open>Responses without the expected key\<close>

text \<open>
  Claim C1, as amended. The client has no error type of its own. For \<^verbatim>\<open>get_token\<close>,
  \<^verbatim>\<open>add_devices\<close> (called with at least as many activation codes as ids),
  \<^verbatim>\<open>create_endpoint\<close>, \<^verbatim>\<open>create_oauth_endpoint\<close>, \<^verbatim>\<open>assign_to_endpoint\<close>,
  \<^verbatim>\<open>delete_from_endpoint\<close> and \<^verbatim>\<open>delete_endpoints\<close>, and every response whose JSON body
  is an object without the key the operation tests for, the operation writes an error
  record to the log and then raises \<^verbatim>\<open>KeyError\<close> for that very key: the missing-key
  exception of the dictionary lookup is what reaches the caller. The error record of
  \<^verbatim>\<open>create_oauth_endpoint\<close> is one of two, chosen by the presence of \<^verbatim>\<open>"EndpointError"\<close>.
\<close>

theorem missing_key_raises_KeyError:
  assumes "json r = Inr (PDict d)"
  shows
   "(''access_token'' \<notin> fst ` set d \<longrightarrow>
       fst (run (get_token client_id client_secret (respond_with r))) = Inl (KeyError ''access_token'') \<and>
       Log ERROR ''No token received'' []
         \<in> set (logged (snd (run (get_token client_id client_secret (respond_with r)))))) \<and>
    (''DevicesPassed'' \<notin> fst ` set d \<and> length new_ids \<le> length new_acs \<longrightarrow>
       fst (run (add_devices new_ids new_acs token (respond_with r))) = Inl (KeyError ''DevicesPassed'') \<and>
       Log ERROR ''Failed to add any devices'' []
         \<in> set (logged (snd (run (add_devices new_ids new_acs token (respond_with r)))))) \<and>
    (''EndpointId'' \<notin> fst ` set d \<longrightarrow>
       fst (run (create_endpoint token devv_url (respond_with r))) = Inl (KeyError ''EndpointId'') \<and>
       Log ERROR ''EndpointId is missing from json response in create_endpoint()'' []
         \<in> set (logged (snd (run (create_endpoint token devv_url (respond_with r))))) \<and>
       fst (run (create_oauth_endpoint devv_url auth_url token AuthTokenType AuthTokenKey (respond_with r))) =
         Inl (KeyError ''EndpointId'') \<and>
       (if ''EndpointError'' \<in> fst ` set d
        then Log ERROR ''Failed to get a token from AuthUrl with given parameters, response from AuthUrl was 400'' []
        else Log ERROR ''EndpointId is missing from json response in create_oauth_endpoint()'' [])
         \<in> set (logged (snd (run (create_oauth_endpoint devv_url auth_url token AuthTokenType AuthTokenKey
              (respond_with r)))))) \<and>
    (''DevicePassed'' \<notin> fst ` set d \<longrightarrow>
       fst (run (assign_to_endpoint device_ids endpoint_id token (respond_with r))) = Inl (KeyError ''DevicePassed'') \<and>
       Log ERROR ''Failed to assign devices to endpoint'' []
         \<in> set (logged (snd (run (assign_to_endpoint device_ids endpoint_id token (respond_with r))))) \<and>
       fst (run (delete_from_endpoint device_ids endpoint_id token (respond_with r))) = Inl (KeyError ''DevicePassed'') \<and>
       Log ERROR ''Failed to delete (devices not found)'' []
         \<in> set (logged (snd (run (delete_from_endpoint device_ids endpoint_id token (respond_with r)))))) \<and>
    (''EndpointsDeleted'' \<notin> fst ` set d \<longrightarrow>
       fst (run (delete_endpoints kill_points token (respond_with r))) = Inl (KeyError ''EndpointsDeleted'') \<and>
       Log ERROR ''Endpoints not found'' []
         \<in> set (logged (snd (run (delete_endpoints kill_points token (respond_with r))))))"
proof (intro conjI impI)
  assume "''access_token'' \<notin> fst ` set d"
  with assms show "fst (run (get_token client_id client_secret (respond_with r))) = Inl (KeyError ''access_token'')"
    and "Log ERROR ''No token received'' []
         \<in> set (logged (snd (run (get_token client_id client_secret (respond_with r)))))"
    by (simp_all add: get_token_no_key)
next
  assume "''DevicesPassed'' \<notin> fst ` set d \<and> length new_ids \<le> length new_acs"
  with assms show "fst (run (add_devices new_ids new_acs token (respond_with r))) = Inl (KeyError ''DevicesPassed'')"
    and "Log ERROR ''Failed to add any devices'' []
         \<in> set (logged (snd (run (add_devices new_ids new_acs token (respond_with r)))))"
    by (simp_all add: add_devices_no_key)
next
  assume "''EndpointId'' \<notin> fst ` set d"
  with assms show "fst (run (create_endpoint token devv_url (respond_with r))) = Inl (KeyError ''EndpointId'')"
    and "Log ERROR ''EndpointId is missing from json response in create_endpoint()'' []
         \<in> set (logged (snd (run (create_endpoint token devv_url (respond_with r)))))"
    and "fst (run (create_oauth_endpoint devv_url auth_url token AuthTokenType AuthTokenKey (respond_with r))) =
         Inl (KeyError ''EndpointId'')"
    and "(if ''EndpointError'' \<in> fst ` set d
        then Log ERROR ''Failed to get a token from AuthUrl with given parameters, response from AuthUrl was 400'' []
        else Log ERROR ''EndpointId is missing from json response in create_oauth_endpoint()'' [])
         \<in> set (logged (snd (run (create_oauth_endpoint devv_url auth_url token AuthTokenType AuthTokenKey
              (respond_with r)))))"
    by (simp_all add: create_endpoint_no_key create_oauth_endpoint_no_key)
next
  assume "''DevicePassed'' \<notin> fst ` set d"
  with assms show "fst (run (assign_to_endpoint device_ids endpoint_id token (respond_with r))) = Inl (KeyError ''DevicePassed'')"
    and "Log ERROR ''Failed to assign devices to endpoint'' []
         \<in> set (logged (snd (run (assign_to_endpoint device_ids endpoint_id token (respond_with r)))))"
    and "fst (run (delete_from_endpoint device_ids endpoint_id token (respond_with r))) = Inl (KeyError ''DevicePassed'')"
    and "Log ERROR ''Failed to delete (devices not found)'' []
         \<in> set (logged (snd (run (delete_from_endpoint device_ids endpoint_id token (respond_with r)))))"
    by (simp_all add: assign_to_endpoint_no_key delete_from_endpoint_no_key)
next
  assume "''EndpointsDeleted'' \<notin> fst ` set d"
  with assms show "fst (run (delete_endpoints kill_points token (respond_with r))) = Inl (KeyError ''EndpointsDeleted'')"
    and "Log ERROR ''Endpoints not found'' []
         \<in> set (logged (snd (run (delete_endpoints kill_points token (respond_with r)))))"
    by (simp_all add: delete_endpoints_no_key)
qed

text \<open>The amended statement at the empty JSON object, which lacks every key.\<close>

theorem missing_key_raises_KeyError_witness:
  "json \<lparr>status_code = 200, content = ''{}'', body_json = Some (PDict [])\<rparr> = Inr (PDict []) \<and>
   fst (run (get_token ''id'' ''secret''
      (respond_with \<lparr>status_code = 200, content = ''{}'', body_json = Some (PDict [])\<rparr>))) =
     Inl (KeyError ''access_token'') \<and>
   fst (run (add_devices [''dev-1''] [''ac-1''] ''tok''
      (respond_with \<lparr>status_code = 200, content = ''{}'', body_json = Some (PDict [])\<rparr>))) =
     Inl (KeyError ''DevicesPassed'') \<and>
   fst (run (create_endpoint ''tok'' ''https://example.org/hook''
      (respond_with \<lparr>status_code = 200, content = ''{}'', body_json = Some (PDict [])\<rparr>))) =
     Inl (KeyError ''EndpointId'') \<and>
   fst (run (create_oauth_endpoint ''https://example.org/hook'' ''https://example.org/auth'' ''tok''
      ''Bearer'' ''access_token''
      (respond_with \<lparr>status_code = 200, content = ''{}'', body_json = Some (PDict [])\<rparr>))) =
     Inl (KeyError ''EndpointId'') \<and>
   Log ERROR ''EndpointId is missing from json response in create_oauth_endpoint()'' []
     \<in> set (logged (snd (run (create_oauth_endpoint ''https://example.org/hook'' ''https://example.org/auth'' ''tok''
      ''Bearer'' ''access_token''
      (respond_with \<lparr>status_code = 200, content = ''{}'', body_json = Some (PDict [])\<rparr>))))) \<and>
   fst (run (assign_to_endpoint [''dev-1''] ''ep-1'' ''tok''
      (respond_with \<lparr>status_code = 200, content = ''{}'', body_json = Some (PDict [])\<rparr>))) =
     Inl (KeyError ''DevicePassed'') \<and>
   fst (run (delete_endpoints [''ep-1''] ''tok''
      (respond_with \<lparr>status_code = 200, content = ''{}'', body_json = Some (PDict [])\<rparr>))) =
     Inl (KeyError ''EndpointsDeleted'')"
proof -
  let ?r = "\<lparr>status_code = 200, content = ''{}'', body_json = Some (PDict [])\<rparr>"
  have body: "json ?r = Inr (PDict [])"
    by (simp add: json_def)
  note inst = missing_key_raises_KeyError [OF body, of "''id''" "''secret''" "[''dev-1'']" "[''ac-1'']" "''tok''"
      "''https://example.org/hook''" "''https://example.org/auth''" "''Bearer''" "''access_token''"
      "[''dev-1'']" "''ep-1''" "[''ep-1'']"]
  from body inst show ?thesis
    by simp
qed

text \<open>
  The claim as stated fails: on a body without \<^verbatim>\<open>"EndpointId"\<close>, \<^verbatim>\<open>create_endpoint\<close>
  raises the missing-key exception itself.
\<close>

theorem create_endpoint_missing_key_counterexample:
  "fst (run (create_endpoint ''tok'' ''https://example.org/hook''
      (respond_with \<lparr>status_code = 403, content = ''{\"Message\": \"Forbidden\"}'',
         body_json = Some (PDict [(''Message'', PStr ''Forbidden'')])\<rparr>))) =
     Inl (KeyError ''EndpointId'')"
  by (simp add: create_endpoint_def exec_defs json_def)

text \<open>
  Claim C7, as amended. For every response whose JSON body is an object without the key
  \<^verbatim>\<open>"access_token"\<close>, \<^verbatim>\<open>get_token\<close> returns no token: after the request it logs
  \<^verbatim>\<open>No token received\<close> and the status code, and then fails with
  \<^verbatim>\<open>KeyError('access_token')\<close>, a lookup failure and not an authentication error.
\<close>

theorem get_token_without_access_token:
  assumes "json r = Inr (PDict d)" and "''access_token'' \<notin> fst ` set d"
  shows "run (get_token client_id client_secret (respond_with r)) =
    (Inl (KeyError ''access_token''),
     \<lparr>issued = [\<lparr>meth = GET, url = base @ ''/auth/RequestToken'',
         params = [(''grant_type'', PStr ''client_credentials''),
                   (''client_id'', PStr client_id),
                   (''client_secret'', PStr client_secret),
                   (''content-type'', PStr ''application/x-www-form-urlencoded'')],
         headers = [], auth = Some (''user'', ''pass'')\<rparr>],
      logged = [Log INFO ''Requesting token...'' []] @
         (if d = [] then [Log ERROR ''No json data received in get_token()'' []] else []) @
         [Log ERROR ''No token received'' [], Log INFO ''Status code: {}'' [Obj (PInt (status_code r))]],
      printed = []\<rparr>)"
  using assms by (rule get_token_no_key)

text \<open>The amended statement at the answer to a wrong client secret.\<close>

theorem get_token_without_access_token_witness:
  "json \<lparr>status_code = 401, content = ''{\"error\": \"invalid_client\"}'',
         body_json = Some (PDict [(''error'', PStr ''invalid_client'')])\<rparr> =
     Inr (PDict [(''error'', PStr ''invalid_client'')]) \<and>
   ''access_token'' \<notin> fst ` set [(''error'', PStr ''invalid_client'')] \<and>
   run (get_token ''id'' ''wrong-secret''
      (respond_with \<lparr>status_code = 401, content = ''{\"error\": \"invalid_client\"}'',
         body_json = Some (PDict [(''error'', PStr ''invalid_client'')])\<rparr>)) =
    (Inl (KeyError ''access_token''),
     \<lparr>issued = [\<lparr>meth = GET, url = base @ ''/auth/RequestToken'',
         params = [(''grant_type'', PStr ''client_credentials''),
                   (''client_id'', PStr ''id''),
                   (''client_secret'', PStr ''wrong-secret''),
                   (''content-type'', PStr ''application/x-www-form-urlencoded'')],
         headers = [], auth = Some (''user'', ''pass'')\<rparr>],
      logged = [Log INFO ''Requesting token...'' [], Log ERROR ''No token received'' [],
                Log INFO ''Status code: {}'' [Obj (PInt 401)]],
      printed = []\<rparr>)"
proof -
  let ?r = "\<lparr>status_code = 401, content = ''{\"error\": \"invalid_client\"}'',
         body_json = Some (PDict [(''error'', PStr ''invalid_client'')])\<rparr>"
  have body: "json ?r = Inr (PDict [(''error'', PStr ''invalid_client'')])"
    by (simp add: json_def)
  have absent: "''access_token'' \<notin> fst ` set [(''error'', PStr ''invalid_client'')]"
    by simp
  from body absent get_token_without_access_token [OF body absent, of "''id''" "''wrong-secret''"]
  show ?thesis
    by simp
qed

text \<open>The claim as stated fails: the failure on invalid credentials is a \<^verbatim>\<open>KeyError\<close>.\<close>

theorem get_token_invalid_credentials_counterexample:
  "fst (run (get_token ''id'' ''wrong-secret''
      (respond_with \<lparr>status_code = 401, content = ''{\"error\": \"invalid_client\"}'',
         body_json = Some (PDict [(''error'', PStr ''invalid_client'')])\<rparr>))) =
     Inl (KeyError ''access_token'')"
  by (simp add: get_token_def exec_defs json_def)

text \<open>
  Claim C6, as amended. For every response whose JSON body is an object without the key
  \<^verbatim>\<open>"EndpointId"\<close>, \<^verbatim>\<open>create_oauth_endpoint\<close> fails with \<^verbatim>\<open>KeyError('EndpointId')\<close>,
  whether or not the object carries \<^verbatim>\<open>"EndpointError"\<close>: the error that reaches the caller
  is the same. A rejected client-credentials exchange shows in the log alone. The log holds
  the opening line, then \<^verbatim>\<open>No json data received in create_endpoint()\<close> when the object is
  empty, and then one last error record, which is
  \<^verbatim>\<open>Failed to get a token from AuthUrl ...\<close> when the object carries \<^verbatim>\<open>"EndpointError"\<close> and
  \<^verbatim>\<open>EndpointId is missing ...\<close> when it does not.
\<close>

theorem create_oauth_endpoint_same_failure:
  assumes "json r = Inr (PDict d)" and "''EndpointId'' \<notin> fst ` set d"
  shows "run (create_oauth_endpoint devv_url auth_url token AuthTokenType AuthTokenKey (respond_with r)) =
    (Inl (KeyError ''EndpointId''),
     \<lparr>issued = [\<lparr>meth = POST, url = base @ ''/account/CreateEndpoint'',
         params = [(''URL'', PStr devv_url), (''AuthUrl'', PStr auth_url),
                   (''Authorization'', PStr (bearer token)),
                   (''AuthTokenType'', PStr AuthTokenType), (''AuthTokenKey'', PStr AuthTokenKey)],
         headers = [], auth = None\<rparr>],
      logged = [Log INFO ''Creating endpoint...'' []] @
         (if d = [] then [Log ERROR ''No json data received in create_endpoint()'' []] else []) @
         [if ''EndpointError'' \<in> fst ` set d
          then Log ERROR ''Failed to get a token from AuthUrl with given parameters, response from AuthUrl was 400'' []
          else Log ERROR ''EndpointId is missing from json response in create_oauth_endpoint()'' []],
      printed = []\<rparr>)"
  using assms by (rule create_oauth_endpoint_no_key)

text \<open>The amended statement at a rejected exchange and at an unrelated server error.\<close>

theorem create_oauth_endpoint_same_failure_witness:
  "run (create_oauth_endpoint ''https://example.org/hook'' ''https://example.org/auth'' ''tok'' ''Bearer'' ''access_token''
      (respond_with \<lparr>status_code = 400, content = ''{\"EndpointError\": \"auth\"}'',
         body_json = Some (PDict [(''EndpointError'', PStr ''auth'')])\<rparr>)) =
    (Inl (KeyError ''EndpointId''),
     \<lparr>issued = [\<lparr>meth = POST, url = base @ ''/account/CreateEndpoint'',
         params = [(''URL'', PStr ''https://example.org/hook''), (''AuthUrl'', PStr ''https://example.org/auth''),
                   (''Authorization'', PStr (bearer ''tok'')),
                   (''AuthTokenType'', PStr ''Bearer''), (''AuthTokenKey'', PStr ''access_token'')],
         headers = [], auth = None\<rparr>],
      logged = [Log INFO ''Creating endpoint...'' [],
                Log ERROR ''Failed to get a token from AuthUrl with given parameters, response from AuthUrl was 400'' []],
      printed = []\<rparr>) \<and>
   run (create_oauth_endpoint ''https://example.org/hook'' ''https://example.org/auth'' ''tok'' ''Bearer'' ''access_token''
      (respond_with \<lparr>status_code = 500, content = ''{\"Message\": \"oops\"}'',
         body_json = Some (PDict [(''Message'', PStr ''oops'')])\<rparr>)) =
    (Inl (KeyError ''EndpointId''),
     \<lparr>issued = [\<lparr>meth = POST, url = base @ ''/account/CreateEndpoint'',
         params = [(''URL'', PStr ''https://example.org/hook''), (''AuthUrl'', PStr ''https://example.org/auth''),
                   (''Authorization'', PStr (bearer ''tok'')),
                   (''AuthTokenType'', PStr ''Bearer''), (''AuthTokenKey'', PStr ''access_token'')],
         headers = [], auth = None\<rparr>],
      logged = [Log INFO ''Creating endpoint...'' [],
                Log ERROR ''EndpointId is missing from json response in create_oauth_endpoint()'' []],
      printed = []\<rparr>)"
proof -
  let ?r1 = "\<lparr>status_code = 400, content = ''{\"EndpointError\": \"auth\"}'',
         body_json = Some (PDict [(''EndpointError'', PStr ''auth'')])\<rparr>"
  let ?r2 = "\<lparr>status_code = 500, content = ''{\"Message\": \"oops\"}'',
         body_json = Some (PDict [(''Message'', PStr ''oops'')])\<rparr>"
  have b1: "json ?r1 = Inr (PDict [(''EndpointError'', PStr ''auth'')])"
    and b2: "json ?r2 = Inr (PDict [(''Message'', PStr ''oops'')])"
    by (simp_all add: json_def)
  have k1: "''EndpointId'' \<notin> fst ` set [(''EndpointError'', PStr ''auth'')]"
    and k2: "''EndpointId'' \<notin> fst ` set [(''Message'', PStr ''oops'')]"
    by simp_all
  from create_oauth_endpoint_same_failure [OF b1 k1, of "''https://example.org/hook''"
      "''https://example.org/auth''" "''tok''" "''Bearer''" "''access_token''"]
    create_oauth_endpoint_same_failure [OF b2 k2, of "''https://example.org/hook''"
      "''https://example.org/auth''" "''tok''" "''Bearer''" "''access_token''"]
  show ?thesis
    by simp
qed

text \<open>
  The claim as stated fails: the caller receives the same error for a rejected
  client-credentials exchange and for an \<^verbatim>\<open>"EndpointId"\<close> absent for another reason.
\<close>

theorem create_oauth_endpoint_rejection_counterexample:
  "fst (run (create_oauth_endpoint ''https://example.org/hook'' ''https://example.org/auth'' ''tok'' ''Bearer'' ''access_token''
      (respond_with \<lparr>status_code = 400, content = ''{\"EndpointError\": \"auth\"}'',
         body_json = Some (PDict [(''EndpointError'', PStr ''auth'')])\<rparr>))) =
   fst (run (create_oauth_endpoint ''https://example.org/hook'' ''https://example.org/auth'' ''tok'' ''Bearer'' ''access_token''
      (respond_with \<lparr>status_code = 500, content = ''{\"Message\": \"oops\"}'',
         body_json = Some (PDict [(''Message'', PStr ''oops'')])\<rparr>)))"
  by (simp add: create_oauth_endpoint_def exec_defs json_def)

section \<open>The operations that read the response object\<close>

text \<open>
  Claim C2, as amended. \<^verbatim>\<open>get_devices\<close>, \<^verbatim>\<open>get_devices_by_location\<close>,
  \<^verbatim>\<open>get_locations\<close> and \<^verbatim>\<open>get_location_reports\<close> subscript or iterate the response
  object instead of its parsed JSON body, and none of them returns normally, whatever the
  transport does. \<^verbatim>\<open>get_devices\<close> raises \<^verbatim>\<open>TypeError\<close> on every response. The other
  three raise \<^verbatim>\<open>TypeError\<close> on every response with a non-empty body, which covers every
  well-formed JSON body; on an empty body the iteration yields no slice, so they go on to
  \<^verbatim>\<open>json()\<close>, which raises a JSON decode error.
\<close>

theorem raw_response_readers_never_return:
  "fst (run (get_devices token (respond_with r))) = Inl TypeError \<and>
   fst (run (get_devices_by_location token (respond_with r))) =
     (if content r = [] then Inl JSONDecodeError else Inl TypeError) \<and>
   fst (run (get_locations token (respond_with r))) =
     (if content r = [] then Inl JSONDecodeError else Inl TypeError) \<and>
   fst (run (get_location_reports token (respond_with r))) =
     (if content r = [] then Inl JSONDecodeError else Inl TypeError) \<and>
   (\<forall>v. fst (run (get_devices token send)) \<noteq> Inr v \<and>
        fst (run (get_devices_by_location token send)) \<noteq> Inr v \<and>
        fst (run (get_locations token send)) \<noteq> Inr v \<and>
        fst (run (get_location_reports token send)) \<noteq> Inr v)"
  by (simp add: get_devices_result get_devices_by_location_result get_locations_result
      get_location_reports_result respond_with_def split: sum.split)

text \<open>The statement at a well-formed device list, at an empty JSON list and at an empty body.\<close>

theorem raw_response_readers_never_return_witness:
  "fst (run (get_devices ''tok''
      (respond_with \<lparr>status_code = 200, content = ''{\"Devices\": []}'',
         body_json = Some (PDict [(''Devices'', PList [])])\<rparr>))) = Inl TypeError \<and>
   fst (run (get_locations ''tok''
      (respond_with \<lparr>status_code = 200, content = ''[]'', body_json = Some (PList [])\<rparr>))) = Inl TypeError \<and>
   fst (run (get_location_reports ''tok''
      (respond_with \<lparr>status_code = 204, content = [], body_json = None\<rparr>))) = Inl JSONDecodeError"
  using raw_response_readers_never_return [of "''tok''"
      "\<lparr>status_code = 200, content = ''{\"Devices\": []}'', body_json = Some (PDict [(''Devices'', PList [])])\<rparr>"
      "respond_with \<lparr>status_code = 204, content = [], body_json = None\<rparr>"]
    raw_response_readers_never_return [of "''tok''"
      "\<lparr>status_code = 200, content = ''[]'', body_json = Some (PList [])\<rparr>"
      "respond_with \<lparr>status_code = 204, content = [], body_json = None\<rparr>"]
    raw_response_readers_never_return [of "''tok''"
      "\<lparr>status_code = 204, content = [], body_json = None\<rparr>"
      "respond_with \<lparr>status_code = 204, content = [], body_json = None\<rparr>"]
  by simp

text \<open>
  The claim as stated fails: on a response without a body, \<^verbatim>\<open>get_locations\<close> raises a JSON
  decode error and no type error.
\<close>

theorem get_locations_empty_body_counterexample:
  "fst (run (get_locations ''tok''
      (respond_with \<lparr>status_code = 204, content = [], body_json = None\<rparr>))) = Inl JSONDecodeError \<and>
   fst (run (get_locations ''tok''
      (respond_with \<lparr>status_code = 204, content = [], body_json = None\<rparr>))) \<noteq> Inl TypeError"
  by (simp add: get_locations_def exec_defs json_def response_iter_def ok_def)

section \<open>The key tested and the key read by \<^verbatim>\<open>get_endpoints\<close>\<close>

text \<open>
  Claim C9, as amended. \<^verbatim>\<open>get_endpoints\<close> tests the response for the top-level key
  \<^verbatim>\<open>"EndpointId"\<close> and reads the key \<^verbatim>\<open>"Endpoints"\<close>. For every response whose JSON body is an
  object holding a list of JSON objects under \<^verbatim>\<open>"Endpoints"\<close>, the operation logs every entry
  of the list and returns the list, and the error record
  \<^verbatim>\<open>Endpoints are missing from json response in get_endpoints()\<close> is logged exactly when the
  object has no top-level \<^verbatim>\<open>"EndpointId"\<close>: on such a response the missing-data error is
  logged and the endpoint list is returned all the same.
\<close>

theorem get_endpoints_checks_other_key:
  assumes "json r = Inr (PDict d)"
    and "map_of d ''Endpoints'' = Some (PList (map PDict kvs))"
  shows "run (get_endpoints token (respond_with r)) =
    (Inr (PList (map PDict kvs)),
     \<lparr>issued = [\<lparr>meth = GET, url = base @ ''/account/GetEndpoints/'', params = [],
         headers = [(''Authorization'', bearer token)], auth = None\<rparr>],
      logged = [Log INFO ''Requesting list of endpoints...'' []] @
               (if ''EndpointId'' \<in> fst ` set d then []
                else [Log ERROR ''Endpoints are missing from json response in get_endpoints()'' []]) @
               map (\<lambda>kv. Log INFO ''Found: {}'' [DictValues (map snd kv)]) kvs,
      printed = []\<rparr>)"
proof -
  from assms(2) have "d \<noteq> []" by auto
  with assms show ?thesis
    by (simp add: get_endpoints_def exec_defs for_each_found)
qed

text \<open>
  The amended statement at a response that lists one endpoint, and at the same response
  with a top-level \<^verbatim>\<open>"EndpointId"\<close> added.
\<close>

theorem get_endpoints_checks_other_key_witness:
  "run (get_endpoints ''tok''
     (respond_with \<lparr>status_code = 200, content = ''{\"Endpoints\": [{\"EndpointId\": \"ep-1\", \"URL\": \"https://example.org/hook\"}]}'',
        body_json = Some (PDict [(''Endpoints'',
          PList (map PDict [[(''EndpointId'', PStr ''ep-1''), (''URL'', PStr ''https://example.org/hook'')]]))])\<rparr>)) =
    (Inr (PList [PDict [(''EndpointId'', PStr ''ep-1''), (''URL'', PStr ''https://example.org/hook'')]]),
     \<lparr>issued = [\<lparr>meth = GET, url = base @ ''/account/GetEndpoints/'', params = [],
         headers = [(''Authorization'', bearer ''tok'')], auth = None\<rparr>],
      logged = [Log INFO ''Requesting list of endpoints...'' [],
                Log ERROR ''Endpoints are missing from json response in get_endpoints()'' [],
                Log INFO ''Found: {}'' [DictValues [PStr ''ep-1'', PStr ''https://example.org/hook'']]],
      printed = []\<rparr>) \<and>
   run (get_endpoints ''tok''
     (respond_with \<lparr>status_code = 200, content = ''{\"EndpointId\": \"x\", \"Endpoints\": [{\"EndpointId\": \"ep-1\", \"URL\": \"https://example.org/hook\"}]}'',
        body_json = Some (PDict [(''EndpointId'', PStr ''x''), (''Endpoints'',
          PList (map PDict [[(''EndpointId'', PStr ''ep-1''), (''URL'', PStr ''https://example.org/hook'')]]))])\<rparr>)) =
    (Inr (PList [PDict [(''EndpointId'', PStr ''ep-1''), (''URL'', PStr ''https://example.org/hook'')]]),
     \<lparr>issued = [\<lparr>meth = GET, url = base @ ''/account/GetEndpoints/'', params = [],
         headers = [(''Authorization'', bearer ''tok'')], auth = None\<rparr>],
      logged = [Log INFO ''Requesting list of endpoints...'' [],
                Log INFO ''Found: {}'' [DictValues [PStr ''ep-1'', PStr ''https://example.org/hook'']]],
      printed = []\<rparr>)"
proof -
  let ?kvs = "[[(''EndpointId'', PStr ''ep-1''), (''URL'', PStr ''https://example.org/hook'')]]"
  let ?d1 = "[(''Endpoints'', PList (map PDict ?kvs))]"
  let ?d2 = "[(''EndpointId'', PStr ''x''), (''Endpoints'', PList (map PDict ?kvs))]"
  let ?r1 = "\<lparr>status_code = 200, content = ''{\"Endpoints\": [{\"EndpointId\": \"ep-1\", \"URL\": \"https://example.org/hook\"}]}'',
      body_json = Some (PDict ?d1)\<rparr>"
  let ?r2 = "\<lparr>status_code = 200, content = ''{\"EndpointId\": \"x\", \"Endpoints\": [{\"EndpointId\": \"ep-1\", \"URL\": \"https://example.org/hook\"}]}'',
      body_json = Some (PDict ?d2)\<rparr>"
  have b1: "json ?r1 = Inr (PDict ?d1)" and b2: "json ?r2 = Inr (PDict ?d2)"
    by (simp_all add: json_def)
  have p1: "map_of ?d1 ''Endpoints'' = Some (PList (map PDict ?kvs))"
    and p2: "map_of ?d2 ''Endpoints'' = Some (PList (map PDict ?kvs))"
    by simp_all
  from get_endpoints_checks_other_key [OF b1 p1, of "''tok''"]
    get_endpoints_checks_other_key [OF b2 p2, of "''tok''"]
  show ?thesis
    by simp
qed

text \<open>
  The claim as stated fails: a body with \<^verbatim>\<open>"Endpoints"\<close> and without \<^verbatim>\<open>"EndpointId"\<close> whose
  list holds a string makes \<^verbatim>\<open>get_endpoints\<close> raise \<^verbatim>\<open>AttributeError\<close> at
  \<^verbatim>\<open>entry.values()\<close>, after the error record, and nothing is returned.
\<close>

theorem get_endpoints_string_entry_counterexample:
  "run (get_endpoints ''tok''
     (respond_with \<lparr>status_code = 200, content = ''{\"Endpoints\": [\"ep-1\"]}'',
        body_json = Some (PDict [(''Endpoints'', PList [PStr ''ep-1''])])\<rparr>)) =
    (Inl AttributeError,
     \<lparr>issued = [\<lparr>meth = GET, url = base @ ''/account/GetEndpoints/'', params = [],
         headers = [(''Authorization'', bearer ''tok'')], auth = None\<rparr>],
      logged = [Log INFO ''Requesting list of endpoints...'' [],
                Log ERROR ''Endpoints are missing from json response in get_endpoints()'' []],
      printed = []\<rparr>)"
  by (simp add: get_endpoints_def exec_defs log_found_def json_def)

section \<open>Pairing and result of \<^verbatim>\<open>add_devices\<close>\<close>

text \<open>
  What \<^verbatim>\<open>add_devices\<close> hands to \<^verbatim>\<open>requests.post\<close> and what it returns: for lists of equal
  length the \<^verbatim>\<open>params\<close> argument holds, under \<^verbatim>\<open>devices\<close>, one dictionary per index \<open>i\<close>
  pairing \<^verbatim>\<open>new_ids[i]\<close> with \<^verbatim>\<open>new_acs[i]\<close>; and when the response lists the accepted
  devices under \<^verbatim>\<open>"DevicesPassed"\<close>, the result is the list of their \<^verbatim>\<open>"DeviceId"\<close>
  values, in order.
\<close>

lemma add_devices_params_by_index:
  assumes "length new_ids = length new_acs"
  shows
   "issued (snd (run (add_devices new_ids new_acs token send))) =
      [\<lparr>meth = POST, url = base @ ''/account/AddDevices'',
        params = [(''Authorization'', PStr (bearer token)),
                  (''devices'', PList (map (\<lambda>i. PDict [(''DeviceId'', PStr (new_ids ! i)),
                                                         (''ActivationCode'', PStr (new_acs ! i))])
                     [0 ..< length new_ids]))],
        headers = [], auth = None\<rparr>] \<and>
    (json r = Inr (PDict d) \<and> map_of d ''DevicesPassed'' = Some (PList (map PDict kvs)) \<and>
     map (\<lambda>kv. map_of kv ''DeviceId'') kvs = map Some vs \<longrightarrow>
       fst (run (add_devices new_ids new_acs token (respond_with r))) = Inr (PList vs))"
proof (intro conjI impI)
  from assms have le: "length new_ids \<le> length new_acs" by simp
  show "issued (snd (run (add_devices new_ids new_acs token send))) =
      [\<lparr>meth = POST, url = base @ ''/account/AddDevices'',
        params = [(''Authorization'', PStr (bearer token)),
                  (''devices'', PList (map (\<lambda>i. PDict [(''DeviceId'', PStr (new_ids ! i)),
                                                         (''ActivationCode'', PStr (new_acs ! i))])
                     [0 ..< length new_ids]))],
        headers = [], auth = None\<rparr>]"
    unfolding add_devices_issued [OF le] zip_by_index [OF assms] by (rule refl)
next
  assume "json r = Inr (PDict d) \<and> map_of d ''DevicesPassed'' = Some (PList (map PDict kvs)) \<and>
     map (\<lambda>kv. map_of kv ''DeviceId'') kvs = map Some vs"
  with assms show "fst (run (add_devices new_ids new_acs token (respond_with r))) = Inr (PList vs)"
    by (simp add: add_devices_accepted)
qed

text \<open>
  Claim C5. The pairs that \<^verbatim>\<open>add_devices\<close> builds by index never reach the request. The
  request has no body, and of each dictionary in \<^verbatim>\<open>params\<close> the query string carries the
  two key names only, \<^verbatim>\<open>devices=DeviceId\<close> and \<^verbatim>\<open>devices=ActivationCode\<close>: no id and no
  activation code is sent, and pairing the same ids with the codes in another order gives
  the same request.
\<close>

theorem add_devices_query_without_pairs:
  "map query_of (issued (snd (run (add_devices [''dev-1'', ''dev-2''] [''ac-1'', ''ac-2''] ''tok'' send)))) =
     [[(''Authorization'', Text ''Bearer tok''),
       (''devices'', Text ''DeviceId''), (''devices'', Text ''ActivationCode''),
       (''devices'', Text ''DeviceId''), (''devices'', Text ''ActivationCode'')]] \<and>
   map query_of (issued (snd (run (add_devices [''dev-1'', ''dev-2''] [''ac-2'', ''ac-1''] ''tok'' send)))) =
     [[(''Authorization'', Text ''Bearer tok''),
       (''devices'', Text ''DeviceId''), (''devices'', Text ''ActivationCode''),
       (''devices'', Text ''DeviceId''), (''devices'', Text ''ActivationCode'')]]"
  by (simp add: add_devices_issued query_of_def urlencode_def encode_params_def bearer_def)




section \<open>Where the bearer token travels\<close>

text \<open>
  Claim C3. \<^verbatim>\<open>create_endpoint\<close>, \<^verbatim>\<open>create_oauth_endpoint\<close> and \<^verbatim>\<open>add_devices\<close> issue a
  request without any header: the string \<^verbatim>\<open>Bearer tok\<close> travels among the query parameters,
  under the name \<^verbatim>\<open>Authorization\<close>. \<^verbatim>\<open>assign_to_endpoint\<close>, like the other authenticated
  operations, sends it as the header \<^verbatim>\<open>Authorization: Bearer tok\<close>.
\<close>

theorem authorization_among_query_parameters:
  "map headers (issued (snd (run (create_endpoint ''tok'' ''https://example.org/hook'' send)))) = [[]] \<and>
   map params (issued (snd (run (create_endpoint ''tok'' ''https://example.org/hook'' send)))) =
     [[(''URL'', PStr ''https://example.org/hook''), (''Authorization'', PStr ''Bearer tok'')]] \<and>
   map headers (issued (snd (run (create_oauth_endpoint ''https://example.org/hook'' ''https://example.org/auth''
      ''tok'' ''Bearer'' ''access_token'' send)))) = [[]] \<and>
   map params (issued (snd (run (create_oauth_endpoint ''https://example.org/hook'' ''https://example.org/auth''
      ''tok'' ''Bearer'' ''access_token'' send)))) =
     [[(''URL'', PStr ''https://example.org/hook''), (''AuthUrl'', PStr ''https://example.org/auth''),
       (''Authorization'', PStr ''Bearer tok''),
       (''AuthTokenType'', PStr ''Bearer''), (''AuthTokenKey'', PStr ''access_token'')]] \<and>
   map headers (issued (snd (run (add_devices [''dev-1''] [''ac-1''] ''tok'' send)))) = [[]] \<and>
   map params (issued (snd (run (add_devices [''dev-1''] [''ac-1''] ''tok'' send)))) =
     [[(''Authorization'', PStr ''Bearer tok''),
       (''devices'', PList [PDict [(''DeviceId'', PStr ''dev-1''), (''ActivationCode'', PStr ''ac-1'')]])]] \<and>
   map headers (issued (snd (run (assign_to_endpoint [''dev-1''] ''ep-1'' ''tok'' send)))) =
     [[(''Authorization'', ''Bearer tok'')]]"
  by (simp add: create_endpoint_issued create_oauth_endpoint_issued assign_to_endpoint_issued
      add_devices_issued bearer_def)

section \<open>The result of \<^verbatim>\<open>print_version\<close>\<close>

text \<open>
  Claim C8. On a response whose JSON body is \<^verbatim>\<open>{"Version": "1.4.2"}\<close>, \<^verbatim>\<open>print_version\<close>
  writes the version to the log and returns \<^verbatim>\<open>None\<close>: the function has no
  \<^verbatim>\<open>return\<close> statement, so the version string is not its result.
\<close>

theorem print_version_returns_None:
  "run (print_version
      (respond_with \<lparr>status_code = 200, content = ''{\"Version\": \"1.4.2\"}'',
         body_json = Some (PDict [(''Version'', PStr ''1.4.2'')])\<rparr>)) =
    (Inr PNone,
     \<lparr>issued = [\<lparr>meth = GET, url = base @ ''/account/GetVersion'', params = [], headers = [], auth = None\<rparr>],
      logged = [Log INFO ''Requesting version...'' [],
                Log INFO ''Status code: {}'' [Obj (PInt 200)],
                Log INFO ''Version: {}'' [Obj (PStr ''1.4.2'')]],
      printed = []\<rparr>)"
  by (simp add: print_version_def exec_defs json_def ok_def)

end
